theory Spec2Isabelle
  imports Complex_Main "HOL-Library.AList"
begin

section \<open>Tokens\<close>

text \<open>
  The closed set of token kinds the lexer emits (\<^verbatim>\<open>Lexer::scanToken\<close>) and the parser
  matches on; \<^verbatim>\<open>EOF_\<close> is written \<open>EOF\<close>. The literal kinds \<^verbatim>\<open>NIX\<close>, \<^verbatim>\<open>TRUE\<close> and
  \<^verbatim>\<open>FALSE\<close> of \<^verbatim>\<open>LiteralType\<close> carry the prefix \<open>LT_\<close>, as the token kinds have the
  same names.
\<close>

datatype TokenType =
    LPAREN | RPAREN | LBRACE | RBRACE | LSQRBRKT | RSQRBRKT | COMMA | SEMICOLON
  | PLUS | MINUS | PRODUCT | DIVISON | EXPONENTATION | NOT
  | EQUAL | BT_EQUAL | EQ_EQUAL | NOT_EQUAL
  | GREATER | GT_EQUAL | LESS | LT_EQUAL
  | PLUS_EQUAL | MINUS_EQUAL | PROD_EQUAL | DIV_EQUAL | DOT_DOT
  | AND | OR | IF | ELSE | WHILE | FOR | BREAK | CONTINUE | FUNCTION | RETURN | IN | CLASS
  | TRUE | FALSE | NIX | NUMBER | STRING | IDENTIFIER | EOF

datatype LiteralType = NONE | NUM | STR | LT_NIX | LT_TRUE | LT_FALSE

text \<open>
  \<^verbatim>\<open>Token(type, lexeme, line, ltype)\<close> with its readers \<^verbatim>\<open>getType()\<close>, \<^verbatim>\<open>str()\<close> and
  \<^verbatim>\<open>getLine()\<close>.
\<close>

datatype Token =
  Token (getType: TokenType) (str: string) (getLine: nat) (getLiteralType: LiteralType)

section \<open>Numbers\<close>

text \<open>
  The numbers of the interpreter are C++ \<^verbatim>\<open>long double\<close>s. They are modelled in the x87
  extended format, which GCC and Clang give a \<^verbatim>\<open>long double\<close> on x86-64: a 64-bit
  significand, binary exponents from -16382 to 16383, subnormal numbers, two zeros, two
  infinities and NaN, with every operation rounded to the nearest number, ties to the even
  significand. \<open>Finite x\<close> is the finite number with the real value \<open>x\<close> (\<open>Finite 0\<close> is
  positive zero) and \<open>NZero\<close> is negative zero.
\<close>

datatype long_double = Finite real | NZero | PInf | NInf | NaN

text \<open>The nearest integer to a real number, a tie going to the even one.\<close>

definition nearest_even :: "real \<Rightarrow> int" where
  "nearest_even y =
     (let f = \<lfloor>y\<rfloor> in
      if y - of_int f < 1 / 2 then f
      else if 1 / 2 < y - of_int f then f + 1
      else if even f then f else f + 1)"

text \<open>
  Powers of two; the binary exponent of a real number, which is -16382 for the subnormal
  numbers and zero; and the unit in the last place of a 64-bit significand at that
  exponent.
\<close>

definition pow2 :: "int \<Rightarrow> real" where
  pow2_def [code del]: "pow2 k = 2 powr of_int k"

definition expo :: "real \<Rightarrow> int" where
  expo_def [code del]: "expo x = max \<lfloor>log 2 \<bar>x\<bar>\<rfloor> (- 16382)"

definition ulp :: "real \<Rightarrow> real" where
  "ulp x = pow2 (expo x - 63)"

text \<open>
  Rounding a real number to the format: \<open>round_finite\<close> rounds to a multiple of the unit in
  the last place, with no bound on the exponent; \<open>rnd\<close> is the result of an operation
  whose exact value is \<open>x\<close>: the infinity of the sign of \<open>x\<close> when the rounded magnitude
  reaches \<open>2 ^ 16384\<close>, the zero of the sign of \<open>x\<close> when it is zero.
\<close>

definition round_finite :: "real \<Rightarrow> real" where
  "round_finite x = of_int (nearest_even (x / ulp x)) * ulp x"

definition rnd :: "real \<Rightarrow> long_double" where
  "rnd x =
     (let y = round_finite x in
      if pow2 16384 \<le> \<bar>y\<bar> then (if 0 < x then PInf else NInf)
      else if y = 0 then (if x < 0 then NZero else Finite 0)
      else Finite y)"

text \<open>
  The real numbers that are values of finite \<^verbatim>\<open>long double\<close>s: those that rounding
  leaves as they are, below \<open>2 ^ 16384\<close> in magnitude. A \<^verbatim>\<open>long double\<close> is a zero, an
  infinity, NaN or \<open>Finite x\<close> with such an \<open>x\<close>. The arithmetic operations below return
  \<^verbatim>\<open>long double\<close>s, whatever their operands; negation and the absolute value keep
  them.
\<close>

definition representable :: "real \<Rightarrow> bool" where
  "representable x = (round_finite x = x \<and> \<bar>x\<bar> < pow2 16384)"

definition is_long_double :: "long_double \<Rightarrow> bool" where
  "is_long_double a = (case a of Finite x \<Rightarrow> representable x | _ \<Rightarrow> True)"

text \<open>
  The real value of a finite number, \<^verbatim>\<open>std::isfinite\<close> and \<^verbatim>\<open>std::signbit\<close>.
\<close>

definition real_of :: "long_double \<Rightarrow> real" where
  "real_of a = (case a of Finite x \<Rightarrow> x | _ \<Rightarrow> 0)"

definition isfinite :: "long_double \<Rightarrow> bool" where
  "isfinite a = (case a of Finite x \<Rightarrow> True | NZero \<Rightarrow> True | _ \<Rightarrow> False)"

definition signbit :: "long_double \<Rightarrow> bool" where
  "signbit a = (case a of Finite x \<Rightarrow> x < 0 | NZero \<Rightarrow> True | NInf \<Rightarrow> True | _ \<Rightarrow> False)"

text \<open>
  The operators \<^verbatim>\<open>-x\<close>, \<^verbatim>\<open>x + y\<close>, \<^verbatim>\<open>x - y\<close>, \<^verbatim>\<open>x * y\<close> and \<^verbatim>\<open>x / y\<close> on
  \<^verbatim>\<open>long double\<close>. An exact sum of zero is positive zero unless both terms are negative
  zero; the sum of opposite infinities, the product of zero and an infinity, and the
  quotients of two zeros and of two infinities are NaN.
\<close>

fun ld_neg :: "long_double \<Rightarrow> long_double" where
  "ld_neg (Finite x) = (if x = 0 then NZero else Finite (- x))"
| "ld_neg NZero = Finite 0"
| "ld_neg PInf = NInf"
| "ld_neg NInf = PInf"
| "ld_neg NaN = NaN"

definition ld_add :: "long_double \<Rightarrow> long_double \<Rightarrow> long_double" where
  "ld_add a b =
     (if a = NaN \<or> b = NaN then NaN
      else if a = PInf then (if b = NInf then NaN else PInf)
      else if a = NInf then (if b = PInf then NaN else NInf)
      else if b = PInf then PInf
      else if b = NInf then NInf
      else if real_of a + real_of b = 0 then
        (if a = NZero \<and> b = NZero then NZero else Finite 0)
      else rnd (real_of a + real_of b))"

definition ld_sub :: "long_double \<Rightarrow> long_double \<Rightarrow> long_double" where
  "ld_sub a b = ld_add a (ld_neg b)"

definition ld_mul :: "long_double \<Rightarrow> long_double \<Rightarrow> long_double" where
  "ld_mul a b =
     (if a = NaN \<or> b = NaN then NaN
      else if \<not> isfinite a \<or> \<not> isfinite b then
        (if (isfinite a \<and> real_of a = 0) \<or> (isfinite b \<and> real_of b = 0) then NaN
         else if signbit a \<noteq> signbit b then NInf else PInf)
      else if real_of a * real_of b = 0 then (if signbit a \<noteq> signbit b then NZero else Finite 0)
      else rnd (real_of a * real_of b))"

definition ld_div :: "long_double \<Rightarrow> long_double \<Rightarrow> long_double" where
  "ld_div a b =
     (if a = NaN \<or> b = NaN then NaN
      else if \<not> isfinite a then
        (if \<not> isfinite b then NaN else if signbit a \<noteq> signbit b then NInf else PInf)
      else if \<not> isfinite b then (if signbit a \<noteq> signbit b then NZero else Finite 0)
      else if real_of b = 0 then
        (if real_of a = 0 then NaN else if signbit a \<noteq> signbit b then NInf else PInf)
      else if real_of a = 0 then (if signbit a \<noteq> signbit b then NZero else Finite 0)
      else rnd (real_of a / real_of b))"

text \<open>\<^verbatim>\<open>std::fabs\<close>.\<close>

fun ld_fabs :: "long_double \<Rightarrow> long_double" where
  "ld_fabs (Finite x) = Finite \<bar>x\<bar>"
| "ld_fabs NZero = Finite 0"
| "ld_fabs PInf = PInf"
| "ld_fabs NInf = PInf"
| "ld_fabs NaN = NaN"

text \<open>
  The comparisons \<^verbatim>\<open>x < y\<close>, \<^verbatim>\<open>x <= y\<close> and \<^verbatim>\<open>x > y\<close>: false when an operand is NaN;
  the two zeros are equal.
\<close>

definition ld_less :: "long_double \<Rightarrow> long_double \<Rightarrow> bool" where
  "ld_less a b =
     (if a = NaN \<or> b = NaN then False
      else if a = PInf \<or> b = NInf then False
      else if a = NInf \<or> b = PInf then True
      else real_of a < real_of b)"

definition ld_le :: "long_double \<Rightarrow> long_double \<Rightarrow> bool" where
  "ld_le a b =
     (if a = NaN \<or> b = NaN then False
      else if a = NInf \<or> b = PInf then True
      else if a = PInf \<or> b = NInf then False
      else real_of a \<le> real_of b)"

definition ld_greater :: "long_double \<Rightarrow> long_double \<Rightarrow> bool" where
  "ld_greater a b = ld_less b a"

text \<open>
  \<^verbatim>\<open>std::lround\<close>: the nearest integer, halfway cases away from zero, as a 64-bit
  \<^verbatim>\<open>long\<close>. For an infinity, NaN or a number whose rounding does not fit a \<^verbatim>\<open>long\<close>
  the C standard leaves the result unspecified; x86-64 returns the least \<^verbatim>\<open>long\<close>,
  and so does the model. The conversion of a \<^verbatim>\<open>long\<close> to \<^verbatim>\<open>long double\<close> is exact, as
  the significand has 64 bits.
\<close>

definition lround :: "long_double \<Rightarrow> int" where
  "lround d =
     (case d of
        Finite x \<Rightarrow>
          (let r = (if 0 \<le> x then \<lfloor>x + 1 / 2\<rfloor> else \<lceil>x - 1 / 2\<rceil>)
           in if - (2 ^ 63) \<le> r \<and> r < 2 ^ 63 then r else - (2 ^ 63))
      | NZero \<Rightarrow> 0
      | _ \<Rightarrow> - (2 ^ 63))"

definition of_long :: "int \<Rightarrow> long_double" where
  "of_long n = Finite (of_int n)"

text \<open>
  \<^verbatim>\<open>std::pow\<close>, a library function: on zeros, infinities and NaN the results the C
  standard fixes (Annex F); on finite numbers a negative base with an exponent that is not
  an integer gives NaN, and every other result is taken as the rounding of the exact power.
\<close>

definition odd_integer :: "long_double \<Rightarrow> bool" where
  "odd_integer e = (case e of Finite y \<Rightarrow> y = of_int \<lfloor>y\<rfloor> \<and> odd \<lfloor>y\<rfloor> | _ \<Rightarrow> False)"

definition std_pow :: "long_double \<Rightarrow> long_double \<Rightarrow> long_double" where
  std_pow_def [code del]: "std_pow base e =
     (if e = Finite 0 \<or> e = NZero then Finite 1
      else if base = Finite 1 then Finite 1
      else if base = NaN \<or> e = NaN then NaN
      else if base = Finite 0 \<or> base = NZero then
        (if signbit e then (if odd_integer e \<and> base = NZero then NInf else PInf)
         else (if odd_integer e \<and> base = NZero then NZero else Finite 0))
      else if e = PInf \<or> e = NInf then
        (if base = Finite (- 1) then Finite 1
         else if ld_less (ld_fabs base) (Finite 1) then (if e = NInf then PInf else Finite 0)
         else (if e = NInf then Finite 0 else PInf))
      else if base = PInf then (if signbit e then Finite 0 else PInf)
      else if base = NInf then
        (if signbit e then (if odd_integer e then NZero else Finite 0)
         else (if odd_integer e then NInf else PInf))
      else if 0 < real_of base then rnd (real_of base powr real_of e)
      else if real_of e = of_int \<lfloor>real_of e\<rfloor> then
        (if odd \<lfloor>real_of e\<rfloor> then rnd (- ((- real_of base) powr real_of e))
         else rnd ((- real_of base) powr real_of e))
      else NaN)"

section \<open>Values and lists\<close>

text \<open>
  \<^verbatim>\<open>Value\<close> is a \<^verbatim>\<open>std::variant\<close> over nil, bool, \<^verbatim>\<open>long double\<close>, string, a shared
  pointer to a list and a shared pointer to a callable. Shared pointers are addresses into
  the stores kept by the interpreter state below.
\<close>

datatype Value =
    VNix
  | VBool bool
  | VNum long_double
  | VStr string
  | VList nat
  | VCallable nat

text \<open>The alternative a value holds (\<^verbatim>\<open>Value::index()\<close>).\<close>

datatype Kind = NixK | BoolK | NumK | StrK | ListK | CallableK

fun index :: "Value \<Rightarrow> Kind" where
  "index VNix = NixK"
| "index (VBool b) = BoolK"
| "index (VNum d) = NumK"
| "index (VStr s) = StrK"
| "index (VList p) = ListK"
| "index (VCallable p) = CallableK"

text \<open>
  \<^verbatim>\<open>list_t::Type\<close>: the alternative of the elements, cast from \<^verbatim>\<open>Value::index()\<close>, or
  \<^verbatim>\<open>emptyList\<close> (the value 999 in \<^verbatim>\<open>visit(const ListExpr&)\<close>).
\<close>

datatype Type = emptyList | listOf Kind

abbreviation numList :: Type where
  "numList \<equiv> listOf NumK"

record list_t =
  m_list :: "Value list"
  m_type :: Type

fun isNum :: "Value \<Rightarrow> bool" where
  "isNum (VNum d) = True"
| "isNum v = False"

fun isNix :: "Value \<Rightarrow> bool" where
  "isNix VNix = True"
| "isNix v = False"

fun isStr :: "Value \<Rightarrow> bool" where
  "isStr (VStr s) = True"
| "isStr v = False"

fun isBool :: "Value \<Rightarrow> bool" where
  "isBool (VBool b) = True"
| "isBool v = False"

fun isCallable :: "Value \<Rightarrow> bool" where
  "isCallable (VCallable p) = True"
| "isCallable v = False"

fun isList :: "Value \<Rightarrow> bool" where
  "isList (VList p) = True"
| "isList v = False"

text \<open>
  Modelled from the spec: the constant \<^verbatim>\<open>epsilon\<close> is declared in a header that is not
  among the sources; the specification fixes it as \<open>1e-12\<close>. A number is compared with it
  as with the finite number of that value.
\<close>

definition epsilon :: real where
  "epsilon = 1 / 10 ^ 12"

text \<open>\<^verbatim>\<open>Interpreter::isEqual(long double, long double)\<close>.\<close>

definition isEqual_ld :: "long_double \<Rightarrow> long_double \<Rightarrow> bool" where
  "isEqual_ld left right = ld_less (ld_fabs (ld_sub left right)) (Finite epsilon)"

text \<open>
  \<^verbatim>\<open>std::vector::operator[]\<close> has no bounds check: a read past the end has no defined
  result. The read is modelled as partial, so that each use says what happens then.
\<close>

definition elem :: "'a list \<Rightarrow> nat \<Rightarrow> 'a option" where
  "elem xs i = (if i < length xs then Some (xs ! i) else None)"

text \<open>
  The loop of \<^verbatim>\<open>isEqual\<close> over two lists of equal length: it stops at the first pair
  that differs.
\<close>

fun allEqual :: "('a \<Rightarrow> 'a \<Rightarrow> bool option) \<Rightarrow> 'a list \<Rightarrow> 'a list \<Rightarrow> bool option" where
  "allEqual f (x # xs) (y # ys) =
     (case f x y of
        None \<Rightarrow> None
      | Some False \<Rightarrow> Some False
      | Some True \<Rightarrow> allEqual f xs ys)"
| "allEqual f xs ys = Some True"

text \<open>
  \<^verbatim>\<open>Interpreter::isEqual(const Value&, const Value&)\<close>. Lists are compared element by
  element through the store \<open>h\<close>; a list may contain itself, so the recursion carries fuel
  and \<open>None\<close> stands for a comparison that does not return.
\<close>

fun isEqual :: "nat \<Rightarrow> list_t list \<Rightarrow> Value \<Rightarrow> Value \<Rightarrow> bool option" where
  "isEqual 0 h left right = None"
| "isEqual (Suc n) h (VNum a) (VNum b) = Some (isEqual_ld a b)"
| "isEqual (Suc n) h (VList p) (VList q) =
     (case (elem h p, elem h q) of
        (Some leftList, Some rightList) \<Rightarrow>
          if m_type leftList \<noteq> m_type rightList then Some False
          else if length (m_list leftList) \<noteq> length (m_list rightList) then Some False
          else allEqual (isEqual n h) (m_list leftList) (m_list rightList)
      | _ \<Rightarrow> None)"
| "isEqual (Suc n) h left right = Some (left = right)"

text \<open>\<^verbatim>\<open>Interpreter::isTrue\<close>.\<close>

fun isTrue :: "Value \<Rightarrow> bool" where
  "isTrue VNix = False"
| "isTrue (VBool b) = b"
| "isTrue (VNum d) = (\<not> isEqual_ld d (Finite 0))"
| "isTrue v = True"

section \<open>Syntax trees\<close>

text \<open>
  The expression and statement nodes, with the fields their constructors are given in
  \<^verbatim>\<open>Parser.cpp\<close> and that \<^verbatim>\<open>Interpreter.cpp\<close> reads. The interpreter keys its table of
  resolved depths by the address of a node; the three kinds of node it looks up
  (\<^verbatim>\<open>Variable\<close>, \<^verbatim>\<open>Assign\<close>, \<^verbatim>\<open>InExpr\<close>) carry that address as their first field.
  A \<^verbatim>\<open>Literal\<close> keeps the value its constructor computed from the token. Absent
  sub-expressions (\<^verbatim>\<open>nullptr\<close>) are \<open>None\<close>.
\<close>

datatype Expr =
    Binary Expr Token Expr
  | Unary Token Expr
  | ParenGroup Expr
  | Literal Value
  | Variable nat Token
  | Logical Expr Token Expr
  | Assign nat Token Token Expr
  | Call Expr Token "Expr list"
  | Lambda "Token list" "Stmt list"
  | ListExpr "Expr list" Token
  | Index Token Expr Expr
  | RangeExpr Expr "Expr option" Expr Token
  | IndexAssign Expr Expr Token Token Expr
  | InExpr nat Token Token Expr
and Stmt =
    Expression Expr
  | Block "Stmt list"
  | If Expr Stmt "Stmt option"
  | While Expr Stmt
  | For "Expr option" Expr "Expr option" Stmt
  | RangedFor Expr Stmt
  | Break
  | Continue
  | Func Token "Token list" "Stmt list"
  | Return Token "Expr option"

section \<open>Interpreter state\<close>

text \<open>
  Modelled from the spec: \<^verbatim>\<open>Environment.hpp\<close> and \<^verbatim>\<open>ProtoFunc.hpp\<close> are not among the
  sources. An environment is a parent and a mapping from names to values; a user function
  is its name, parameters, body and the environment it closes over.
\<close>

record Environment =
  parent :: "nat option"
  slots :: "(string \<times> Value) list"

record ProtoFunction =
  fn_name :: string
  fn_params :: "Token list"
  fn_body :: "Stmt list"
  fn_closure :: nat

text \<open>
  The members of \<^verbatim>\<open>Interpreter\<close> (\<open>m_val\<close>, \<open>m_env\<close>, \<open>m_global\<close>, \<open>m_locals\<close>), the three
  stores that shared pointers point into (an address is a position; allocation appends),
  and what \<^verbatim>\<open>Proto::runtimeError\<close> has received: the reported errors in order and the
  session flag.
\<close>

record Interpreter =
  m_val :: Value
  m_env :: nat
  m_global :: nat
  m_locals :: "(nat \<times> nat) list"
  envs :: "Environment list"
  lists :: "list_t list"
  callables :: "ProtoFunction list"
  reported :: "(Token \<times> string) list"
  m_hitRuntimeError :: bool

text \<open>
  What a visit can throw. \<^verbatim>\<open>RuntimeError\<close>, \<^verbatim>\<open>BreakThrow\<close>, \<^verbatim>\<open>ContinueThrow\<close> and
  \<^verbatim>\<open>ReturnThrow\<close> are the interpreter's own; \<^verbatim>\<open>std::out_of_range\<close> comes from
  \<^verbatim>\<open>at()\<close> and \<^verbatim>\<open>std::bad_variant_access\<close> from \<^verbatim>\<open>std::get\<close>. \<open>UndefinedBehaviour\<close>
  marks an execution C++ gives no meaning to (an unchecked read past the end of a vector,
  a pointer with no target); no handler catches it.
\<close>

datatype Thrown =
    RuntimeError Token string
  | BreakThrow
  | ContinueThrow
  | ReturnThrow Value
  | OutOfRange
  | BadVariantAccess
  | UndefinedBehaviour

text \<open>
  A visit either does not return (\<open>None\<close>: the fuel ran out) or returns the state it
  leaves behind together with what it threw, if anything. A thrown exception keeps the
  state changes made before it.
\<close>

type_synonym 'a res = "((Thrown + 'a) \<times> Interpreter) option"

definition ok :: "Interpreter \<Rightarrow> unit res" where
  "ok st = Some (Inr (), st)"

definition throw :: "Thrown \<Rightarrow> Interpreter \<Rightarrow> 'a res" where
  "throw e st = Some (Inl e, st)"

definition bnd :: "'a res \<Rightarrow> ('a \<Rightarrow> Interpreter \<Rightarrow> 'b res) \<Rightarrow> 'b res" where
  "bnd r k =
     (case r of
        None \<Rightarrow> None
      | Some (Inl e, st) \<Rightarrow> Some (Inl e, st)
      | Some (Inr a, st) \<Rightarrow> k a st)"

text \<open>
  Modelled from the spec: \<^verbatim>\<open>Proto::runtimeError\<close> is defined outside the sources; it
  reports the error to the diagnostic sink and sets the session flag.
\<close>

definition runtimeError :: "Token \<Rightarrow> string \<Rightarrow> Interpreter \<Rightarrow> Interpreter" where
  "runtimeError t msg st =
     st\<lparr>reported := reported st @ [(t, msg)], m_hitRuntimeError := True\<rparr>"

subsection \<open>Environments\<close>

text \<open>
  Modelled from the spec: the operations of \<^verbatim>\<open>Environment\<close>. Lazy assignment creates or
  overwrites the slot; strict assignment fails when the name has no slot in the selected
  environment; a depth selects an exact ancestor; a plain lookup descends through the
  ancestors and fails when no environment has the name. The messages name the error kinds
  of the specification.
\<close>

fun ancestor :: "Environment list \<Rightarrow> nat \<Rightarrow> nat \<Rightarrow> nat option" where
  "ancestor es p 0 = (if p < length es then Some p else None)"
| "ancestor es p (Suc d) =
     (case elem es p of
        None \<Rightarrow> None
      | Some e \<Rightarrow> (case parent e of None \<Rightarrow> None | Some q \<Rightarrow> ancestor es q d))"

fun lookupChain :: "nat \<Rightarrow> Environment list \<Rightarrow> nat \<Rightarrow> string \<Rightarrow> Value option" where
  "lookupChain 0 es p name = None"
| "lookupChain (Suc k) es p name =
     (case elem es p of
        None \<Rightarrow> None
      | Some e \<Rightarrow>
          (case map_of (slots e) name of
             Some v \<Rightarrow> Some v
           | None \<Rightarrow> (case parent e of None \<Rightarrow> None | Some q \<Rightarrow> lookupChain k es q name)))"

definition Environment_get :: "nat \<Rightarrow> Token \<Rightarrow> Interpreter \<Rightarrow> unit res" where
  "Environment_get p t st =
     (case lookupChain (length (envs st)) (envs st) p (str t) of
        Some v \<Rightarrow> ok (st\<lparr>m_val := v\<rparr>)
      | None \<Rightarrow> throw (RuntimeError t ''read-undefined'') st)"

definition Environment_getAt :: "nat \<Rightarrow> Token \<Rightarrow> nat \<Rightarrow> Interpreter \<Rightarrow> unit res" where
  "Environment_getAt p t depth st =
     (case ancestor (envs st) p depth of
        None \<Rightarrow> throw UndefinedBehaviour st
      | Some q \<Rightarrow>
          (case map_of (slots (envs st ! q)) (str t) of
             Some v \<Rightarrow> ok (st\<lparr>m_val := v\<rparr>)
           | None \<Rightarrow> throw (RuntimeError t ''read-undefined'') st))"

definition Environment_assign :: "nat \<Rightarrow> string \<Rightarrow> Value \<Rightarrow> Interpreter \<Rightarrow> unit res" where
  "Environment_assign p name v st =
     (case elem (envs st) p of
        None \<Rightarrow> throw UndefinedBehaviour st
      | Some e \<Rightarrow>
          ok (st\<lparr>envs := (envs st)[p := e\<lparr>slots := AList.update name v (slots e)\<rparr>]\<rparr>))"

definition Environment_assignAt ::
  "nat \<Rightarrow> string \<Rightarrow> Value \<Rightarrow> nat \<Rightarrow> Interpreter \<Rightarrow> unit res" where
  "Environment_assignAt p name v depth st =
     (case ancestor (envs st) p depth of
        None \<Rightarrow> throw UndefinedBehaviour st
      | Some q \<Rightarrow> Environment_assign q name v st)"

definition Environment_strictAssign ::
  "nat \<Rightarrow> Token \<Rightarrow> Value \<Rightarrow> Interpreter \<Rightarrow> unit res" where
  "Environment_strictAssign p t v st =
     (case elem (envs st) p of
        None \<Rightarrow> throw UndefinedBehaviour st
      | Some e \<Rightarrow>
          (case map_of (slots e) (str t) of
             None \<Rightarrow> throw (RuntimeError t ''assign-to-undefined'') st
           | Some old \<Rightarrow> Environment_assign p (str t) v st))"

definition Environment_strictAssignAt ::
  "nat \<Rightarrow> Token \<Rightarrow> Value \<Rightarrow> nat \<Rightarrow> Interpreter \<Rightarrow> unit res" where
  "Environment_strictAssignAt p t v depth st =
     (case ancestor (envs st) p depth of
        None \<Rightarrow> throw UndefinedBehaviour st
      | Some q \<Rightarrow> Environment_strictAssign q t v st)"

text \<open>\<^verbatim>\<open>std::make_shared\<close> for the three kinds of shared object: the new address.\<close>

definition newEnvironment :: "nat \<Rightarrow> Interpreter \<Rightarrow> nat \<times> Interpreter" where
  "newEnvironment p st =
     (length (envs st), st\<lparr>envs := envs st @ [\<lparr>parent = Some p, slots = []\<rparr>]\<rparr>)"

definition newList :: "Value list \<Rightarrow> Type \<Rightarrow> Interpreter \<Rightarrow> nat \<times> Interpreter" where
  "newList vs ty st =
     (length (lists st), st\<lparr>lists := lists st @ [\<lparr>m_list = vs, m_type = ty\<rparr>]\<rparr>)"

definition newFunction ::
  "string \<Rightarrow> Token list \<Rightarrow> Stmt list \<Rightarrow> Interpreter \<Rightarrow> nat \<times> Interpreter" where
  "newFunction name params body st =
     (length (callables st),
      st\<lparr>callables := callables st @
            [\<lparr>fn_name = name, fn_params = params, fn_body = body, fn_closure = m_env st\<rparr>]\<rparr>)"

text \<open>
  \<^verbatim>\<open>Interpreter::Interpreter()\<close>: one environment, global and current. The four native
  callables bound there are defined in \<^verbatim>\<open>ForeignFuncs.hpp\<close>, outside the sources; this
  development has user functions only and starts from an empty global environment.
\<close>

definition Interpreter_init :: Interpreter where
  "Interpreter_init =
     \<lparr>m_val = VNix, m_env = 0, m_global = 0, m_locals = [],
      envs = [\<lparr>parent = None, slots = []\<rparr>], lists = [], callables = [],
      reported = [], m_hitRuntimeError = False\<rparr>"

section \<open>Operations on values\<close>

text \<open>\<^verbatim>\<open>std::to_string\<close> on a \<^verbatim>\<open>std::size_t\<close>: decimal digits.\<close>

function to_string :: "nat \<Rightarrow> string" where
  "to_string n =
     (if n < 10 then [char_of (48 + n)]
      else to_string (n div 10) @ [char_of (48 + n mod 10)])"
  by pat_completeness auto
termination
  by (relation "measure id") auto

text \<open>
  The \<^verbatim>\<open>switch\<close> of \<^verbatim>\<open>visit(const Binary&)\<close>, after both operands are evaluated, case
  by case in the order of the source. The test \<open>numOperands\<close> is the match on two numbers.
  The comparisons test epsilon-equality first and the order second; an operator outside the
  \<^verbatim>\<open>switch\<close> leaves nil.
\<close>

definition Binary_apply :: "nat \<Rightarrow> Token \<Rightarrow> Value \<Rightarrow> Value \<Rightarrow> Interpreter \<Rightarrow> unit res" where
  "Binary_apply n m_op left right st =
     (if getType m_op = PLUS then
        (case (left, right) of
           (VNum l, VNum r) \<Rightarrow> ok (st\<lparr>m_val := VNum (ld_add l r)\<rparr>)
         | (VStr l, VStr r) \<Rightarrow> ok (st\<lparr>m_val := VStr (l @ r)\<rparr>)
         | _ \<Rightarrow>
             throw (RuntimeError m_op ''Both of the operands must be numbers or strings.'') st)
      else if getType m_op = MINUS then
        (case (left, right) of
           (VNum l, VNum r) \<Rightarrow> ok (st\<lparr>m_val := VNum (ld_sub l r)\<rparr>)
         | _ \<Rightarrow> throw (RuntimeError m_op ''Operands must be numbers.'') st)
      else if getType m_op = PRODUCT then
        (case (left, right) of
           (VNum l, VNum r) \<Rightarrow> ok (st\<lparr>m_val := VNum (ld_mul l r)\<rparr>)
         | _ \<Rightarrow> throw (RuntimeError m_op ''Operands must be numbers.'') st)
      else if getType m_op = DIVISON then
        (case (left, right) of
           (VNum l, VNum r) \<Rightarrow>
             if isEqual_ld r (Finite 0) then throw (RuntimeError m_op ''Cannot divide by 0!'') st
             else ok (st\<lparr>m_val := VNum (ld_div l r)\<rparr>)
         | _ \<Rightarrow> throw (RuntimeError m_op ''Operands must be numbers.'') st)
      else if getType m_op = EXPONENTATION then
        (case (left, right) of
           (VNum l, VNum r) \<Rightarrow> ok (st\<lparr>m_val := VNum (std_pow l r)\<rparr>)
         | _ \<Rightarrow> throw (RuntimeError m_op ''Operands must be numbers.'') st)
      else if getType m_op = GT_EQUAL then
        (case (left, right) of
           (VNum l, VNum r) \<Rightarrow>
             ok (st\<lparr>m_val :=
                   VBool (if isEqual_ld l r then True else if ld_greater l r then True else False)\<rparr>)
         | _ \<Rightarrow> throw (RuntimeError m_op ''Operands must be numbers.'') st)
      else if getType m_op = LT_EQUAL then
        (case (left, right) of
           (VNum l, VNum r) \<Rightarrow>
             ok (st\<lparr>m_val :=
                   VBool (if isEqual_ld l r then True else if ld_less l r then True else False)\<rparr>)
         | _ \<Rightarrow> throw (RuntimeError m_op ''Operands must be numbers.'') st)
      else if getType m_op = LESS then
        (case (left, right) of
           (VNum l, VNum r) \<Rightarrow>
             ok (st\<lparr>m_val :=
                   VBool (if isEqual_ld l r then False else if ld_less l r then True else False)\<rparr>)
         | _ \<Rightarrow> throw (RuntimeError m_op ''Operands must be numbers.'') st)
      else if getType m_op = GREATER then
        (case (left, right) of
           (VNum l, VNum r) \<Rightarrow>
             ok (st\<lparr>m_val :=
                   VBool (if isEqual_ld l r then False else if ld_greater l r then True else False)\<rparr>)
         | _ \<Rightarrow> throw (RuntimeError m_op ''Operands must be numbers.'') st)
      else if getType m_op = NOT_EQUAL then
        (case isEqual n (lists st) left right of
           None \<Rightarrow> None
         | Some b \<Rightarrow> ok (st\<lparr>m_val := VBool (\<not> b)\<rparr>))
      else if getType m_op = EQ_EQUAL then
        (case isEqual n (lists st) left right of
           None \<Rightarrow> None
         | Some b \<Rightarrow> ok (st\<lparr>m_val := VBool b\<rparr>))
      else ok (st\<lparr>m_val := VNix\<rparr>))"

text \<open>The \<^verbatim>\<open>switch\<close> of \<^verbatim>\<open>visit(const Unary&)\<close>, after the operand is evaluated.\<close>

definition Unary_apply :: "Token \<Rightarrow> Interpreter \<Rightarrow> unit res" where
  "Unary_apply m_op st =
     (if getType m_op = MINUS then
        (case m_val st of
           VNum d \<Rightarrow> ok (st\<lparr>m_val := VNum (ld_neg d)\<rparr>)
         | _ \<Rightarrow> throw (RuntimeError m_op ''Operand must be a number.'') st)
      else if getType m_op = NOT then ok (st\<lparr>m_val := VBool (\<not> isTrue (m_val st))\<rparr>)
      else ok st)"

subsection \<open>Index checks\<close>

text \<open>
  The three checks \<^verbatim>\<open>verifyIndices\<close> makes on one index \<open>d\<close> against a list of length
  \<open>len\<close>; \<open>None\<close> when the index passes.
\<close>

definition verifyIndex :: "nat \<Rightarrow> Token \<Rightarrow> long_double \<Rightarrow> Thrown option" where
  "verifyIndex len indexOp d =
     (if \<not> ld_less (ld_fabs (ld_sub d (of_long (lround d)))) (Finite epsilon) then
        Some (RuntimeError indexOp ''Indices must be positive, non-zero integers.'')
      else if lround d \<le> 0 then
        Some (RuntimeError indexOp ''Indices can't be negative or zero.'')
      else if nat (lround d) > len then
        Some (RuntimeError indexOp
          ''One or more of the indices is greater than the length of the list.'')
      else None)"

text \<open>The loop of \<^verbatim>\<open>verifyIndices\<close> over an indexing list: the first failure ends it.\<close>

fun verifyEach :: "nat \<Rightarrow> Token \<Rightarrow> Value list \<Rightarrow> Thrown option" where
  "verifyEach len indexOp [] = None"
| "verifyEach len indexOp (VNum d # is) =
     (case verifyIndex len indexOp d of
        Some e \<Rightarrow> Some e
      | None \<Rightarrow> verifyEach len indexOp is)"
| "verifyEach len indexOp (i # is) = Some BadVariantAccess"

text \<open>\<^verbatim>\<open>Interpreter::verifyIndices\<close>; \<open>list\<close> is the address of the indexed list.\<close>

definition verifyIndices :: "nat \<Rightarrow> Value \<Rightarrow> Token \<Rightarrow> Interpreter \<Rightarrow> unit res" where
  "verifyIndices list idx indexOp st =
     (case elem (lists st) list of
        None \<Rightarrow> throw UndefinedBehaviour st
      | Some L \<Rightarrow>
          (case idx of
             VList ip \<Rightarrow>
               (case elem (lists st) ip of
                  None \<Rightarrow> throw UndefinedBehaviour st
                | Some listIndex \<Rightarrow>
                    if m_type listIndex = emptyList then ok st
                    else if m_type listIndex \<noteq> numList then
                      throw (RuntimeError indexOp ''The indexing list must contain numbers.'') st
                    else
                      (case verifyEach (length (m_list L)) indexOp (m_list listIndex) of
                         Some e \<Rightarrow> throw e st
                       | None \<Rightarrow> ok st))
           | VNum d \<Rightarrow>
               (case verifyIndex (length (m_list L)) indexOp d of
                  Some e \<Rightarrow> throw e st
                | None \<Rightarrow> ok st)
           | _ \<Rightarrow> throw (RuntimeError indexOp ''The index must be a list or a number.'') st))"

subsection \<open>Reading through an index\<close>

text \<open>
  An unchecked read \<^verbatim>\<open>v[k]\<close> where \<open>k\<close> comes from a signed subtraction: a negative \<open>k\<close>
  converts to a position far past the end.
\<close>

definition elemZ :: "'a list \<Rightarrow> int \<Rightarrow> 'a option" where
  "elemZ xs k = (if 0 \<le> k then elem xs (nat k) else None)"

text \<open>The gather loop of \<^verbatim>\<open>visit(const Index&)\<close>.\<close>

fun gather :: "Value list \<Rightarrow> Value list \<Rightarrow> Value list \<Rightarrow> Thrown + Value list" where
  "gather xs [] val = Inr val"
| "gather xs (VNum d # is) val =
     (case elemZ xs (lround d - 1) of
        None \<Rightarrow> Inl UndefinedBehaviour
      | Some v \<Rightarrow> gather xs is (val @ [v]))"
| "gather xs (i # is) val = Inl BadVariantAccess"

text \<open>\<^verbatim>\<open>visit(const Index&)\<close> from the call of \<^verbatim>\<open>verifyIndices\<close> on.\<close>

definition Index_apply :: "nat \<Rightarrow> Value \<Rightarrow> Token \<Rightarrow> Interpreter \<Rightarrow> unit res" where
  "Index_apply list idx indexOp st0 =
     bnd (verifyIndices list idx indexOp st0) (\<lambda>_ st.
       case elem (lists st) list of
         None \<Rightarrow> throw UndefinedBehaviour st
       | Some L \<Rightarrow>
           (case idx of
              VList ip \<Rightarrow>
                (case elem (lists st) ip of
                   None \<Rightarrow> throw UndefinedBehaviour st
                 | Some listIndex \<Rightarrow>
                     (case gather (m_list L) (m_list listIndex) [] of
                        Inl e \<Rightarrow> throw e st
                      | Inr val \<Rightarrow>
                          (case newList val (m_type L) st of
                             (p, st') \<Rightarrow> ok (st'\<lparr>m_val := VList p\<rparr>))))
            | VNum d \<Rightarrow>
                (case elemZ (m_list L) (lround d - 1) of
                   None \<Rightarrow> throw UndefinedBehaviour st
                 | Some v \<Rightarrow> ok (st\<lparr>m_val := v\<rparr>))
            | _ \<Rightarrow> ok st))"

subsection \<open>Writing through an index\<close>

text \<open>\<^verbatim>\<open>list->m_list.at(k) = v\<close>: the checked write.\<close>

definition at_put :: "nat \<Rightarrow> int \<Rightarrow> Value \<Rightarrow> Interpreter \<Rightarrow> unit res" where
  "at_put list k v st =
     (case elem (lists st) list of
        None \<Rightarrow> throw UndefinedBehaviour st
      | Some L \<Rightarrow>
          if 0 \<le> k \<and> nat k < length (m_list L) then
            ok (st\<lparr>lists := (lists st)[list := L\<lparr>m_list := (m_list L)[nat k := v]\<rparr>]\<rparr>)
          else throw OutOfRange st)"

text \<open>
  The scatter loop of \<^verbatim>\<open>visit(const IndexAssign&)\<close>, \<open>k\<close> iterations from position \<open>i\<close>.
  The three lists may be one and the same object, so every iteration reads the store as
  the iterations before it left it.
\<close>

fun scatter :: "nat \<Rightarrow> nat \<Rightarrow> nat \<Rightarrow> nat \<Rightarrow> nat \<Rightarrow> Interpreter \<Rightarrow> unit res" where
  "scatter 0 i list ip vp st = ok st"
| "scatter (Suc k) i list ip vp st =
     (case (elem (lists st) ip, elem (lists st) vp) of
        (Some indexList, Some valueList) \<Rightarrow>
          (case elem (m_list indexList) i of
             None \<Rightarrow> throw UndefinedBehaviour st
           | Some (VNum d) \<Rightarrow>
               (case elem (m_list valueList) i of
                  None \<Rightarrow> throw OutOfRange st
                | Some v \<Rightarrow>
                    bnd (at_put list (lround d - 1) v st)
                      (\<lambda>_ st'. scatter k (Suc i) list ip vp st'))
           | Some _ \<Rightarrow> throw BadVariantAccess st)
      | _ \<Rightarrow> throw UndefinedBehaviour st)"

text \<open>
  \<^verbatim>\<open>visit(const IndexAssign&)\<close> after the list, the index and the value are evaluated and
  \<^verbatim>\<open>verifyIndices\<close> has passed. The scalar branch compares the alternative of the new
  value with that of \<^verbatim>\<open>list->m_list[1]\<close>, an unchecked read of the second element.
\<close>

definition IndexAssign_apply ::
  "nat \<Rightarrow> Value \<Rightarrow> Value \<Rightarrow> Token \<Rightarrow> Token \<Rightarrow> Interpreter \<Rightarrow> unit res" where
  "IndexAssign_apply list idx val indexOp m_op st =
     (case idx of
        VList ip \<Rightarrow>
          (case val of
             VList vp \<Rightarrow>
               (case (elem (lists st) ip, elem (lists st) vp) of
                  (Some indexList, Some valueList) \<Rightarrow>
                    if length (m_list indexList) \<noteq> length (m_list valueList) then
                      throw (RuntimeError m_op
                        ''The value list's length must be equal to the number of indices accessed.'') st
                    else if m_type indexList \<noteq> m_type valueList then
                      throw (RuntimeError m_op ''Type mismatch for list assignment.'') st
                    else scatter (length (m_list indexList)) 0 list ip vp st
                | _ \<Rightarrow> throw UndefinedBehaviour st)
           | _ \<Rightarrow> throw (RuntimeError m_op ''The value must be a list.'') st)
      | VNum d \<Rightarrow>
          (case elem (lists st) list of
             None \<Rightarrow> throw UndefinedBehaviour st
           | Some L \<Rightarrow>
               (case elem (m_list L) 1 of
                  None \<Rightarrow> throw UndefinedBehaviour st
                | Some second \<Rightarrow>
                    if index val \<noteq> index second then
                      throw (RuntimeError indexOp ''Type mismatch for list assignment.'') st
                    else at_put list (lround d - 1) val st))
      | _ \<Rightarrow> ok st)"

subsection \<open>Ranges\<close>

text \<open>
  The loop of \<^verbatim>\<open>visit(const RangeExpr&)\<close>:
  \<^verbatim>\<open>for (auto i = first; i <= end; i += step) rangeList.push_back(i);\<close>
  on \<^verbatim>\<open>long double\<close>s: the test is false when \<open>i\<close> or \<open>end\<close> is NaN and every addition
  is rounded. Nothing bounds the number of iterations, so the loop carries fuel and \<open>None\<close>
  stands for a loop that has not ended within it.
\<close>

fun rangeLoop ::
  "nat \<Rightarrow> long_double \<Rightarrow> long_double \<Rightarrow> long_double \<Rightarrow> Value list \<Rightarrow> Value list option" where
  "rangeLoop 0 i step end rangeList = None"
| "rangeLoop (Suc n) i step end rangeList =
     (if ld_le i end then rangeLoop n (ld_add i step) step end (rangeList @ [VNum i])
      else Some rangeList)"

section \<open>The evaluator\<close>

subsection \<open>Loops over child nodes and exception handlers\<close>

text \<open>
  \<^verbatim>\<open>for (auto stmt : stmts) execute(stmt);\<close> as it appears in \<^verbatim>\<open>executeBlock\<close> and
  \<^verbatim>\<open>interpret\<close>: the first statement that throws ends the loop.
\<close>

fun executeAll ::
  "(Stmt \<Rightarrow> Interpreter \<Rightarrow> unit res) \<Rightarrow> Stmt list \<Rightarrow> Interpreter \<Rightarrow> unit res" where
  "executeAll execute [] st = ok st"
| "executeAll execute (stmt # stmts) st =
     bnd (execute stmt st) (\<lambda>_ st'. executeAll execute stmts st')"

text \<open>The argument loop of \<^verbatim>\<open>visit(const Call&)\<close>.\<close>

fun acceptArgs ::
  "(Expr \<Rightarrow> Interpreter \<Rightarrow> unit res) \<Rightarrow> Expr list \<Rightarrow> Value list \<Rightarrow> Interpreter
     \<Rightarrow> (Value list) res" where
  "acceptArgs accept [] args st = Some (Inr args, st)"
| "acceptArgs accept (arg # rest) args st =
     bnd (accept arg st) (\<lambda>_ st'. acceptArgs accept rest (args @ [m_val st']) st')"

text \<open>
  The element loop of \<^verbatim>\<open>visit(const ListExpr&)\<close>. The variable \<open>type\<close> starts at 999 and
  takes the alternative of the first element; \<open>None\<close> is that start value, which no
  alternative equals.
\<close>

fun acceptElements ::
  "(Expr \<Rightarrow> Interpreter \<Rightarrow> unit res) \<Rightarrow> Token \<Rightarrow> Expr list \<Rightarrow> Value list \<Rightarrow> Kind option
     \<Rightarrow> Interpreter \<Rightarrow> (Value list \<times> Kind option) res" where
  "acceptElements accept brkt [] vals type st = Some (Inr (vals, type), st)"
| "acceptElements accept brkt (e # rest) vals type st =
     bnd (accept e st) (\<lambda>_ st'.
       let type' = (case type of None \<Rightarrow> Some (index (m_val st')) | Some k \<Rightarrow> Some k) in
       if type' \<noteq> Some (index (m_val st')) then
         throw (RuntimeError brkt
           ''Lists are homogenous and can't contain different types.'') st'
       else acceptElements accept brkt rest (vals @ [m_val st']) type' st')"

text \<open>\<^verbatim>\<open>catch (const ContinueThrow&) {}\<close> and \<^verbatim>\<open>catch (const BreakThrow&) {}\<close>.\<close>

definition catchContinue :: "unit res \<Rightarrow> unit res" where
  "catchContinue r =
     (case r of Some (Inl ContinueThrow, st) \<Rightarrow> Some (Inr (), st) | _ \<Rightarrow> r)"

definition catchBreak :: "unit res \<Rightarrow> unit res" where
  "catchBreak r =
     (case r of Some (Inl BreakThrow, st) \<Rightarrow> Some (Inr (), st) | _ \<Rightarrow> r)"

text \<open>
  Modelled from the spec: \<^verbatim>\<open>ProtoFunction::call\<close> binds the parameters to the arguments
  in a fresh environment whose parent is the captured closure. This is the binding step.
\<close>

fun bindParams :: "nat \<Rightarrow> Token list \<Rightarrow> Value list \<Rightarrow> Interpreter \<Rightarrow> unit res" where
  "bindParams env (p # ps) (a # as) st =
     bnd (Environment_assign env (str p) a st) (\<lambda>_ st'. bindParams env ps as st')"
| "bindParams env ps as st = ok st"

subsection \<open>Visits\<close>

text \<open>
  The visit functions of \<^verbatim>\<open>Interpreter.cpp\<close>. \<open>accept\<close> is the visit of an expression
  (its value is left in \<open>m_val\<close>), \<open>execute\<close> the visit of a statement. Loops and calls may
  run forever, so every function carries fuel, one unit per nested visit or iteration.
  \<open>ProtoFunction_call\<close> is modelled from the spec, as \<^verbatim>\<open>ProtoFunc.hpp\<close> is not among the
  sources: it runs the body as a block in the fresh environment; a \<^verbatim>\<open>return\<close> gives the
  value of the call, falling off the end gives nil.
\<close>

function (sequential) accept :: "nat \<Rightarrow> Expr \<Rightarrow> Interpreter \<Rightarrow> unit res"
and execute :: "nat \<Rightarrow> Stmt \<Rightarrow> Interpreter \<Rightarrow> unit res"
and executeBlock :: "nat \<Rightarrow> Stmt list \<Rightarrow> nat \<Rightarrow> Interpreter \<Rightarrow> unit res"
and whileLoop :: "nat \<Rightarrow> Expr \<Rightarrow> Stmt \<Rightarrow> Interpreter \<Rightarrow> unit res"
and forLoop :: "nat \<Rightarrow> Expr \<Rightarrow> Expr option \<Rightarrow> Stmt \<Rightarrow> Interpreter \<Rightarrow> unit res"
and rangedForLoop :: "nat \<Rightarrow> nat \<Rightarrow> nat \<Rightarrow> string \<Rightarrow> nat \<Rightarrow> Stmt \<Rightarrow> Interpreter \<Rightarrow> unit res"
and ProtoFunction_call :: "nat \<Rightarrow> ProtoFunction \<Rightarrow> Value list \<Rightarrow> Interpreter \<Rightarrow> unit res"
where
  "accept 0 e st = None"
| "accept (Suc n) (Binary m_left m_op m_right) st =
     bnd (accept n m_left st) (\<lambda>_ st1.
     bnd (accept n m_right st1) (\<lambda>_ st2.
       Binary_apply n m_op (m_val st1) (m_val st2) st2))"
| "accept (Suc n) (Unary m_op m_right) st =
     bnd (accept n m_right st) (\<lambda>_ st1. Unary_apply m_op st1)"
| "accept (Suc n) (ParenGroup m_enclosedExpr) st = accept n m_enclosedExpr st"
| "accept (Suc n) (Literal v) st = ok (st\<lparr>m_val := v\<rparr>)"
| "accept (Suc n) (Variable addr m_name) st =
     (case map_of (m_locals st) addr of
        Some depth \<Rightarrow> Environment_getAt (m_env st) m_name depth st
      | None \<Rightarrow> Environment_get (m_global st) m_name st)"
| "accept (Suc n) (Logical m_left m_op m_right) st =
     bnd (accept n m_left st) (\<lambda>_ st1.
       if getType m_op = OR then
         (if isTrue (m_val st1) then ok (st1\<lparr>m_val := VBool True\<rparr>)
          else bnd (accept n m_right st1) (\<lambda>_ st2.
            if isTrue (m_val st2) then ok (st2\<lparr>m_val := VBool True\<rparr>)
            else ok (st2\<lparr>m_val := VBool False\<rparr>)))
       else
         (if \<not> isTrue (m_val st1) then ok (st1\<lparr>m_val := VBool False\<rparr>)
          else bnd (accept n m_right st1) (\<lambda>_ st2.
            if isTrue (m_val st2) then ok (st2\<lparr>m_val := VBool True\<rparr>)
            else ok (st2\<lparr>m_val := VBool False\<rparr>))))"
| "accept (Suc n) (Assign addr m_name m_op m_value) st =
     bnd (accept n m_value st) (\<lambda>_ st1.
       let isStrictAssign = (getType m_op = BT_EQUAL);
           isLazyAssign = (getType m_op = EQUAL)
       in case map_of (m_locals st1) addr of
            Some depth \<Rightarrow>
              if isLazyAssign then
                Environment_assignAt (m_env st1) (str m_name) (m_val st1) depth st1
              else if isStrictAssign then
                Environment_strictAssignAt (m_env st1) m_name (m_val st1) depth st1
              else ok st1
          | None \<Rightarrow>
              if isLazyAssign then
                Environment_assign (m_global st1) (str m_name) (m_val st1) st1
              else if isStrictAssign then
                Environment_strictAssign (m_global st1) m_name (m_val st1) st1
              else ok st1)"
| "accept (Suc n) (Call m_callee m_paren m_args) st =
     bnd (accept n m_callee st) (\<lambda>_ st1.
     bnd (acceptArgs (accept n) m_args [] st1) (\<lambda>args st2.
       case m_val st1 of
         VCallable fp \<Rightarrow>
           (case elem (callables st2) fp of
              None \<Rightarrow> throw UndefinedBehaviour st2
            | Some fn \<Rightarrow>
                if length (fn_params fn) \<noteq> length args then
                  throw (RuntimeError m_paren
                    (''Expected '' @ to_string (length (fn_params fn)) @
                     '' argument(s) but got '' @ to_string (length args) @
                     '' argument(s).'')) st2
                else ProtoFunction_call n fn args st2)
       | _ \<Rightarrow> throw (RuntimeError m_paren ''Provided object is not callable.'') st2))"
| "accept (Suc n) (Lambda m_params m_body) st =
     (case newFunction [] m_params m_body st of
        (fp, st1) \<Rightarrow> ok (st1\<lparr>m_val := VCallable fp\<rparr>))"
| "accept (Suc n) (ListExpr m_exprs m_brkt) st =
     bnd (acceptElements (accept n) m_brkt m_exprs [] None st) (\<lambda>(vals, type) st1.
       case newList vals (case type of None \<Rightarrow> emptyList | Some k \<Rightarrow> listOf k) st1 of
         (p, st2) \<Rightarrow> ok (st2\<lparr>m_val := VList p\<rparr>))"
| "accept (Suc n) (Index m_indexOp m_list_expr m_index) st =
     bnd (accept n m_list_expr st) (\<lambda>_ st1.
       case m_val st1 of
         VList list \<Rightarrow>
           bnd (accept n m_index st1) (\<lambda>_ st2.
             Index_apply list (m_val st2) m_indexOp st2)
       | _ \<Rightarrow>
           throw (RuntimeError m_indexOp
             ''The index operator can only be used on lists.'') st1)"
| "accept (Suc n) (RangeExpr m_first m_step m_end m_op) st =
     bnd (accept n m_first st) (\<lambda>_ st1.
       case m_val st1 of
         VNum first \<Rightarrow>
           bnd (case m_step of
                  None \<Rightarrow> Some (Inr (Finite 1), st1)
                | Some step_expr \<Rightarrow>
                    bnd (accept n step_expr st1) (\<lambda>_ st2.
                      case m_val st2 of
                        VNum step \<Rightarrow>
                          if isEqual_ld step (Finite 0) then
                            throw (RuntimeError m_op ''Range step cannot be 0.'') st2
                          else Some (Inr step, st2)
                      | _ \<Rightarrow>
                          throw (RuntimeError m_op
                            ''Ranges can only contain numeric descriptors.'') st2))
             (\<lambda>step st2.
                bnd (accept n m_end st2) (\<lambda>_ st3.
                  case m_val st3 of
                    VNum end \<Rightarrow>
                      (case rangeLoop n first step end [] of
                         None \<Rightarrow> None
                       | Some rangeList \<Rightarrow>
                           (case newList rangeList numList st3 of
                              (p, st4) \<Rightarrow> ok (st4\<lparr>m_val := VList p\<rparr>)))
                  | _ \<Rightarrow>
                      throw (RuntimeError m_op
                        ''Ranges can only contain numeric descriptors.'') st3))
       | _ \<Rightarrow>
           throw (RuntimeError m_op ''Ranges can only contain numeric descriptors.'') st1)"
| "accept (Suc n) (IndexAssign m_list_expr m_index m_indexOp m_op m_value) st =
     bnd (accept n m_list_expr st) (\<lambda>_ st1.
       case m_val st1 of
         VList list \<Rightarrow>
           bnd (accept n m_index st1) (\<lambda>_ st2.
           bnd (verifyIndices list (m_val st2) m_indexOp st2) (\<lambda>_ st3.
           bnd (accept n m_value st3) (\<lambda>_ st4.
             IndexAssign_apply list (m_val st2) (m_val st4) m_indexOp m_op st4)))
       | _ \<Rightarrow>
           throw (RuntimeError m_indexOp
             ''The index operator can only be used on lists.'') st1)"
| "accept (Suc n) (InExpr addr m_name m_inKeyword m_iterable) st =
     bnd (accept n m_iterable st) (\<lambda>_ st1.
       if \<not> isList (m_val st1) then
         throw (RuntimeError m_inKeyword
           ''The specified object for the in-expression isn't an iterable.'') st1
       else ok st1)"

| "execute 0 s st = None"
| "execute (Suc n) (Expression m_expr) st = accept n m_expr st"
| "execute (Suc n) (Block m_stmts) st =
     (case newEnvironment (m_env st) st of
        (env, st1) \<Rightarrow> executeBlock n m_stmts env st1)"
| "execute (Suc n) (If m_condition m_thenBranch m_elseBranch) st =
     bnd (accept n m_condition st) (\<lambda>_ st1.
       if isTrue (m_val st1) then execute n m_thenBranch st1
       else (case m_elseBranch of
               Some elseBranch \<Rightarrow> execute n elseBranch st1
             | None \<Rightarrow> ok st1))"
| "execute (Suc n) (While m_condition m_body) st =
     bnd (accept n m_condition st) (\<lambda>_ st1.
       catchBreak (whileLoop n m_condition m_body st1))"
| "execute (Suc n) (For m_init m_condition m_increment m_body) st =
     (let parent_env = m_env st in
      case newEnvironment (m_env st) st of
        (env, st0) \<Rightarrow>
          bnd (case m_init of
                 Some init \<Rightarrow> accept n init (st0\<lparr>m_env := env\<rparr>)
               | None \<Rightarrow> ok (st0\<lparr>m_env := env\<rparr>)) (\<lambda>_ st1.
          bnd (accept n m_condition st1) (\<lambda>_ st2.
          bnd (catchBreak (forLoop n m_condition m_increment m_body st2)) (\<lambda>_ st3.
            ok (st3\<lparr>m_env := parent_env\<rparr>)))))"
| "execute (Suc n) (RangedFor m_inexpr m_body) st =
     (let parent_env = m_env st in
      case newEnvironment (m_env st) st of
        (env, st0) \<Rightarrow>
          bnd (accept n m_inexpr (st0\<lparr>m_env := env\<rparr>)) (\<lambda>_ st1.
            case m_val st1 of
              VList iterable \<Rightarrow>
                (case m_inexpr of
                   InExpr addr m_name m_inKeyword m_iterable \<Rightarrow>
                     (case map_of (m_locals st1) addr of
                        None \<Rightarrow> throw OutOfRange st1
                      | Some depth \<Rightarrow>
                          bnd (catchBreak
                                 (rangedForLoop n 0 iterable (str m_name) depth m_body st1))
                            (\<lambda>_ st2. ok (st2\<lparr>m_env := parent_env\<rparr>)))
                 | _ \<Rightarrow> throw UndefinedBehaviour st1)
            | _ \<Rightarrow> throw BadVariantAccess st1))"
| "execute (Suc n) Break st = throw BreakThrow st"
| "execute (Suc n) Continue st = throw ContinueThrow st"
| "execute (Suc n) (Func m_name m_params m_body) st =
     (case newFunction (str m_name) m_params m_body st of
        (fp, st1) \<Rightarrow> Environment_assign (m_env st1) (str m_name) (VCallable fp) st1)"
| "execute (Suc n) (Return m_keyword m_value) st =
     bnd (case m_value of
            Some v \<Rightarrow> accept n v st
          | None \<Rightarrow> ok (st\<lparr>m_val := VNix\<rparr>)) (\<lambda>_ st1.
       throw (ReturnThrow (m_val st1)) st1)"

| "executeBlock 0 stmts env st = None"
| "executeBlock (Suc n) stmts env st =
     (let parent_env = m_env st in
      case executeAll (execute n) stmts (st\<lparr>m_env := env\<rparr>) of
        None \<Rightarrow> None
      | Some (Inr u, st') \<Rightarrow> ok (st'\<lparr>m_env := parent_env\<rparr>)
      | Some (Inl (RuntimeError t msg), st') \<Rightarrow>
          ok (runtimeError t msg (st'\<lparr>m_env := parent_env\<rparr>))
      | Some (Inl (ReturnThrow v), st') \<Rightarrow>
          throw (ReturnThrow v) (st'\<lparr>m_env := parent_env\<rparr>)
      | Some (Inl e, st') \<Rightarrow> throw e st')"

| "whileLoop 0 m_condition m_body st = None"
| "whileLoop (Suc n) m_condition m_body st =
     (if isTrue (m_val st) then
        bnd (catchContinue (execute n m_body st)) (\<lambda>_ st1.
        bnd (accept n m_condition st1) (\<lambda>_ st2.
          whileLoop n m_condition m_body st2))
      else ok st)"

| "forLoop 0 m_condition m_increment m_body st = None"
| "forLoop (Suc n) m_condition m_increment m_body st =
     (if isTrue (m_val st) then
        bnd (catchContinue
               (case m_body of
                  Block m_stmts \<Rightarrow> executeBlock n m_stmts (m_env st) st
                | _ \<Rightarrow> execute n m_body st)) (\<lambda>_ st1.
        bnd (case m_increment of
               Some increment \<Rightarrow> accept n increment st1
             | None \<Rightarrow> ok st1) (\<lambda>_ st2.
        bnd (accept n m_condition st2) (\<lambda>_ st3.
          forLoop n m_condition m_increment m_body st3)))
      else ok st)"

| "rangedForLoop 0 i iterable name depth m_body st = None"
| "rangedForLoop (Suc n) i iterable name depth m_body st =
     (case elem (lists st) iterable of
        None \<Rightarrow> throw UndefinedBehaviour st
      | Some L \<Rightarrow>
          if i < length (m_list L) then
            bnd (Environment_assignAt (m_env st) name (m_list L ! i) depth st) (\<lambda>_ st1.
            bnd (catchContinue
                   (case m_body of
                      Block m_stmts \<Rightarrow> executeBlock n m_stmts (m_env st1) st1
                    | _ \<Rightarrow> execute n m_body st1)) (\<lambda>_ st2.
              rangedForLoop n (Suc i) iterable name depth m_body st2))
          else ok st)"

| "ProtoFunction_call 0 fn args st = None"
| "ProtoFunction_call (Suc n) fn args st =
     (case newEnvironment (fn_closure fn) st of
        (env, st1) \<Rightarrow>
          bnd (bindParams env (fn_params fn) args st1) (\<lambda>_ st2.
            case executeBlock n (fn_body fn) env st2 of
              None \<Rightarrow> None
            | Some (Inr u, st3) \<Rightarrow> ok (st3\<lparr>m_val := VNix\<rparr>)
            | Some (Inl (ReturnThrow v), st3) \<Rightarrow> ok (st3\<lparr>m_val := v\<rparr>)
            | Some (Inl e, st3) \<Rightarrow> throw e st3))"
  by pat_completeness auto

text \<open>Every nested visit and every iteration takes one unit of fuel.\<close>

termination
  by (relation "measure (case_sum (case_sum fst (case_sum fst fst))
                           (case_sum (case_sum fst fst) (case_sum fst fst)))")
     simp_all

text \<open>
  \<^verbatim>\<open>Interpreter::interpret(const Stmts&)\<close>: one handler around the whole loop over the
  top-level statements.
\<close>

definition Interpreter_interpret :: "nat \<Rightarrow> Stmt list \<Rightarrow> Interpreter \<Rightarrow> unit res" where
  "Interpreter_interpret n stmts st =
     (case executeAll (execute n) stmts st of
        Some (Inl (RuntimeError t msg), st') \<Rightarrow> ok (runtimeError t msg st')
      | r \<Rightarrow> r)"

section \<open>The parser: assignments\<close>

text \<open>
  The members of \<^verbatim>\<open>Parser\<close>, what \<^verbatim>\<open>Proto::error\<close> has received from it (line and
  message), and the address \<^verbatim>\<open>std::make_shared\<close> gives to the next node that carries
  one.
\<close>

record Parser =
  m_tokens :: "Token list"
  m_current :: nat
  m_allowExpr :: bool
  m_foundExpr :: bool
  m_loopDepth :: nat
  diagnostics :: "(nat \<times> string) list"
  free_addr :: nat

text \<open>
  A production throws \<^verbatim>\<open>ParseError\<close>, or \<^verbatim>\<open>std::out_of_range\<close> from
  \<^verbatim>\<open>m_tokens.at()\<close>; it keeps the state it reached. \<open>None\<close> is a production that does
  not return.
\<close>

datatype ParserThrown = ParseError string | TokensOutOfRange

type_synonym 'a parsed = "((ParserThrown + 'a) \<times> Parser) option"

definition pbnd :: "'a parsed \<Rightarrow> ('a \<Rightarrow> Parser \<Rightarrow> 'b parsed) \<Rightarrow> 'b parsed" where
  "pbnd r k =
     (case r of
        None \<Rightarrow> None
      | Some (Inl e, p) \<Rightarrow> Some (Inl e, p)
      | Some (Inr a, p) \<Rightarrow> k a p)"

definition preturn :: "'a \<Rightarrow> Parser \<Rightarrow> 'a parsed" where
  "preturn a p = Some (Inr a, p)"

definition pthrow :: "ParserThrown \<Rightarrow> Parser \<Rightarrow> 'a parsed" where
  "pthrow e p = Some (Inl e, p)"

text \<open>\<^verbatim>\<open>Parser::peek\<close> and \<^verbatim>\<open>Parser::previous\<close>: checked reads of the token vector.\<close>

definition peek :: "Parser \<Rightarrow> Token parsed" where
  "peek p =
     (case elem (m_tokens p) (m_current p) of
        Some t \<Rightarrow> preturn t p
      | None \<Rightarrow> pthrow TokensOutOfRange p)"

definition previous :: "Parser \<Rightarrow> Token parsed" where
  "previous p =
     (if m_current p = 0 then pthrow TokensOutOfRange p
      else case elem (m_tokens p) (m_current p - 1) of
             Some t \<Rightarrow> preturn t p
           | None \<Rightarrow> pthrow TokensOutOfRange p)"

definition isAtEnd :: "Parser \<Rightarrow> bool parsed" where
  "isAtEnd p = pbnd (peek p) (\<lambda>t p'. preturn (getType t = EOF) p')"

definition isNextType :: "TokenType \<Rightarrow> Parser \<Rightarrow> bool parsed" where
  "isNextType type p =
     pbnd (isAtEnd p) (\<lambda>atEnd p1.
       if atEnd then preturn False p1
       else pbnd (peek p1) (\<lambda>t p2. preturn (getType t = type) p2))"

definition advance :: "Parser \<Rightarrow> Token parsed" where
  "advance p =
     pbnd (isAtEnd p) (\<lambda>atEnd p1.
       previous (if \<not> atEnd then p1\<lparr>m_current := m_current p1 + 1\<rparr> else p1))"

text \<open>\<^verbatim>\<open>Parser::match(const std::list<TokenType>&)\<close>: the first kind that fits is consumed.\<close>

fun match :: "TokenType list \<Rightarrow> Parser \<Rightarrow> bool parsed" where
  "match [] p = preturn False p"
| "match (type # types) p =
     pbnd (isNextType type p) (\<lambda>b p1.
       if b then pbnd (advance p1) (\<lambda>_ p2. preturn True p2)
       else match types p1)"

text \<open>\<^verbatim>\<open>Parser::error\<close>: reports to \<^verbatim>\<open>Proto::error\<close> and hands back the exception.\<close>

definition error :: "Token \<Rightarrow> string \<Rightarrow> Parser \<Rightarrow> ParserThrown parsed" where
  "error t msg p =
     preturn (ParseError msg) (p\<lparr>diagnostics := diagnostics p @ [(getLine t, msg)]\<rparr>)"

text \<open>
  The three optional continuations of \<^verbatim>\<open>Parser::assignment\<close>, in the order of the
  source; \<open>expr\<close> is what \<^verbatim>\<open>lor()\<close> returned and \<open>assignment_rec\<close> the recursive call.
  Each either returns from \<^verbatim>\<open>assignment\<close> with a node (\<open>Some\<close>) or falls through to
  the code after it (\<open>None\<close>).

  First \<^verbatim>\<open>if (match({ EQUAL, BT_EQUAL }))\<close>.
\<close>

definition plainAssignment ::
  "(Parser \<Rightarrow> Expr parsed) \<Rightarrow> Expr \<Rightarrow> Parser \<Rightarrow> (Expr option) parsed" where
  "plainAssignment assignment_rec expr p =
     pbnd (match [EQUAL, BT_EQUAL] p) (\<lambda>matched p1.
       if matched then
         pbnd (previous p1) (\<lambda>op p2.
         pbnd (assignment_rec p2) (\<lambda>val p3.
           case expr of
             Variable a name \<Rightarrow>
               preturn (Some (Assign (free_addr p3) name op val))
                 (p3\<lparr>free_addr := free_addr p3 + 1\<rparr>)
           | Index indexOp list_expr index_expr \<Rightarrow>
               preturn (Some (IndexAssign list_expr index_expr indexOp op val)) p3
           | _ \<Rightarrow>
               pbnd (error op ''Invalid assignment location.'' p3) (\<lambda>_ p4.
                 preturn None p4)))
       else preturn None p1)"

text \<open>
  Second \<^verbatim>\<open>if (match({ PROD_EQUAL, DIV_EQUAL, PLUS_EQUAL, MINUS_EQUAL }))\<close>, the desugaring
  of compound assignments. The \<^verbatim>\<open>switch\<close> replaces \<open>op\<close> by the arithmetic operator on
  the same line and \<open>val\<close> by the binary node over the variable node itself and \<open>val\<close>;
  then \<open>op\<close> becomes a strict-assignment token on that line.
\<close>

definition compoundOperator :: "Token \<Rightarrow> Token" where
  "compoundOperator op =
     (if getType op = PLUS_EQUAL then Token PLUS ''+'' (getLine op) NONE
      else if getType op = MINUS_EQUAL then Token MINUS ''-'' (getLine op) NONE
      else if getType op = PROD_EQUAL then Token PRODUCT ''*'' (getLine op) NONE
      else if getType op = DIV_EQUAL then Token DIVISON ''/'' (getLine op) NONE
      else op)"

definition compoundAssignment ::
  "(Parser \<Rightarrow> Expr parsed) \<Rightarrow> Expr \<Rightarrow> Parser \<Rightarrow> (Expr option) parsed" where
  "compoundAssignment assignment_rec expr p =
     pbnd (match [PROD_EQUAL, DIV_EQUAL, PLUS_EQUAL, MINUS_EQUAL] p) (\<lambda>matched p1.
       if matched then
         pbnd (previous p1) (\<lambda>op p2.
         pbnd (assignment_rec p2) (\<lambda>val p3.
           case expr of
             Variable a name \<Rightarrow>
               (let op1 = compoundOperator op;
                    val1 = (if getType op \<in> {PLUS_EQUAL, MINUS_EQUAL, PROD_EQUAL, DIV_EQUAL}
                            then Binary (Variable a name) op1 val else val);
                    op2 = Token BT_EQUAL ''`='' (getLine op1) NONE
                in preturn (Some (Assign (free_addr p3) name op2 val1))
                     (p3\<lparr>free_addr := free_addr p3 + 1\<rparr>))
           | _ \<Rightarrow>
               pbnd (error op ''Invalid assignment location.'' p3) (\<lambda>_ p4.
                 preturn None p4)))
       else preturn None p1)"

text \<open>Third \<^verbatim>\<open>if (match(TokenType::IN))\<close>.\<close>

definition inExpression ::
  "(Parser \<Rightarrow> Expr parsed) \<Rightarrow> Expr \<Rightarrow> Parser \<Rightarrow> (Expr option) parsed" where
  "inExpression assignment_rec expr p =
     pbnd (match [IN] p) (\<lambda>matched p1.
       if matched then
         pbnd (previous p1) (\<lambda>in_tok p2.
         pbnd (assignment_rec p2) (\<lambda>iterable p3.
           case expr of
             Variable a name \<Rightarrow>
               preturn (Some (InExpr (free_addr p3) name in_tok iterable))
                 (p3\<lparr>free_addr := free_addr p3 + 1\<rparr>)
           | _ \<Rightarrow>
               pbnd (error in_tok ''Missing identifier for iterating variable.'' p3)
                 (\<lambda>_ p4. preturn None p4)))
       else preturn None p1)"

text \<open>
  \<^verbatim>\<open>Parser::assignment\<close>. The production below it, \<^verbatim>\<open>lor\<close>, is a parameter: what is
  proved of \<open>assignment\<close> holds whatever \<open>lor\<close> parses. The recursion on the right-hand
  side carries fuel.
\<close>

fun assignment :: "nat \<Rightarrow> (Parser \<Rightarrow> Expr parsed) \<Rightarrow> Parser \<Rightarrow> Expr parsed" where
  "assignment 0 lor p = None"
| "assignment (Suc n) lor p =
     pbnd (lor p) (\<lambda>expr p1.
     pbnd (plainAssignment (assignment n lor) expr p1) (\<lambda>r1 p2.
       case r1 of
         Some node \<Rightarrow> preturn node p2
       | None \<Rightarrow>
           pbnd (compoundAssignment (assignment n lor) expr p2) (\<lambda>r2 p3.
             case r2 of
               Some node \<Rightarrow> preturn node p3
             | None \<Rightarrow>
                 pbnd (inExpression (assignment n lor) expr p3) (\<lambda>r3 p4.
                   case r3 of
                     Some node \<Rightarrow> preturn node p4
                   | None \<Rightarrow> preturn expr p4))))"

text \<open>
  The part of \<^verbatim>\<open>Parser::primary\<close> that reads an identifier: one \<^verbatim>\<open>IDENTIFIER\<close> token
  becomes a \<^verbatim>\<open>Variable\<close> node; anything else is \<^verbatim>\<open>Invalid Syntax.\<close> here. It serves as
  a concrete production below \<open>assignment\<close> in examples.
\<close>

definition primary_identifier :: "Parser \<Rightarrow> Expr parsed" where
  "primary_identifier p =
     pbnd (match [IDENTIFIER] p) (\<lambda>matched p1.
       if matched then
         pbnd (previous p1) (\<lambda>t p2.
           preturn (Variable (free_addr p2) t) (p2\<lparr>free_addr := free_addr p2 + 1\<rparr>))
       else
         pbnd (peek p1) (\<lambda>t p2.
         pbnd (error t ''Invalid Syntax.'' p2) (\<lambda>e p3. pthrow e p3)))"

section \<open>Properties as the specification words them\<close>

text \<open>
  The specification's comparison of two numbers: strict comparisons are false and
  non-strict ones true on epsilon-equal operands, those whose computed difference is below
  \<open>epsilon\<close> in magnitude; otherwise the usual order of \<^verbatim>\<open>long double\<close> decides, in which
  NaN is neither below, nor above, nor equal to any number. The exception are two
  infinities of the same sign: their difference is NaN, they are not epsilon-equal, and
  all four comparisons are false.
\<close>

definition epsilon_equal :: "long_double \<Rightarrow> long_double \<Rightarrow> bool" where
  "epsilon_equal a b =
     (case ld_sub a b of
        Finite e \<Rightarrow> \<bar>e\<bar> < epsilon
      | NZero \<Rightarrow> True
      | _ \<Rightarrow> False)"

definition comparison_spec :: "TokenType \<Rightarrow> long_double \<Rightarrow> long_double \<Rightarrow> bool" where
  "comparison_spec t a b =
     (if epsilon_equal a b then (t = GT_EQUAL \<or> t = LT_EQUAL)
      else if (a = PInf \<and> b = PInf) \<or> (a = NInf \<and> b = NInf) then False
      else if t = GREATER then ld_less b a
      else if t = LESS then ld_less a b
      else if t = GT_EQUAL then ld_le b a
      else ld_le a b)"

text \<open>
  The specification's valid index into a list of length \<open>len\<close>: an integer by the epsilon
  test, positive, and at most \<open>len\<close>.
\<close>

definition validIndex :: "nat \<Rightarrow> long_double \<Rightarrow> bool" where
  "validIndex len d =
     (ld_less (ld_fabs (ld_sub d (of_long (lround d)))) (Finite epsilon)
      \<and> 0 < lround d \<and> nat (lround d) \<le> len)"

text \<open>The \<open>i\<close>-th element of a list, counting from one.\<close>

definition ith :: "Value list \<Rightarrow> long_double \<Rightarrow> Value" where
  "ith xs d = xs ! (nat (lround d) - 1)"

text \<open>
  The specification's tree for a compound assignment with operator token \<open>op\<close> to the
  variable node \<open>Variable a name\<close>: the binary node over that variable and \<open>e\<close>, and the
  strict assignment of \<open>name\<close>, at a fresh address, to that node; both new tokens are on
  the line of \<open>op\<close>.
\<close>

definition compoundBinary :: "nat \<Rightarrow> Token \<Rightarrow> Token \<Rightarrow> Expr \<Rightarrow> Expr" where
  "compoundBinary a name op e =
     Binary (Variable a name)
       (if getType op = PLUS_EQUAL then Token PLUS ''+'' (getLine op) NONE
        else if getType op = MINUS_EQUAL then Token MINUS ''-'' (getLine op) NONE
        else if getType op = PROD_EQUAL then Token PRODUCT ''*'' (getLine op) NONE
        else Token DIVISON ''/'' (getLine op) NONE)
       e"

definition strictAssignTree :: "nat \<Rightarrow> nat \<Rightarrow> Token \<Rightarrow> Token \<Rightarrow> Expr \<Rightarrow> Expr" where
  "strictAssignTree addr a name op e =
     Assign addr name (Token BT_EQUAL ''`='' (getLine op) NONE) (compoundBinary a name op e)"

text \<open>
  The same assignment with the parentheses of the written form kept as a grouping node,
  as the parser builds it from the text \<open>a `= (a + e)\<close>.
\<close>

definition strictAssignWritten :: "nat \<Rightarrow> nat \<Rightarrow> Token \<Rightarrow> Token \<Rightarrow> Expr \<Rightarrow> Expr" where
  "strictAssignWritten addr a name op e =
     Assign addr name (Token BT_EQUAL ''`='' (getLine op) NONE)
       (ParenGroup (compoundBinary a name op e))"

section \<open>Example programs\<close>

text \<open>The statement \<^verbatim>\<open>-"s";\<close> on a given line: negating a string is a runtime error.\<close>

definition negate :: "nat \<Rightarrow> string \<Rightarrow> Stmt" where
  "negate line s = Expression (Unary (Token MINUS ''-'' line NONE) (Literal (VStr s)))"

text \<open>
  \<^verbatim>\<open>while (x) { x = false; continue; }\<close> with \<open>x\<close> a global variable, and a state in which
  \<open>x\<close> is true.
\<close>

definition x_tok :: Token where
  "x_tok = Token IDENTIFIER ''x'' 1 NONE"

definition continue_loop :: Stmt where
  "continue_loop =
     While (Variable 0 x_tok)
       (Block [Expression (Assign 1 x_tok (Token EQUAL ''='' 1 NONE) (Literal (VBool False))),
               Continue])"

definition x_true :: Interpreter where
  "x_true = Interpreter_init\<lparr>envs := [\<lparr>parent = None, slots = [(''x'', VBool True)]\<rparr>]\<rparr>"

text \<open>
  Literals, tokens and a global variable \<open>x\<close> for the examples below. \<open>num d\<close> is the
  literal of the finite number \<open>d\<close>, a \<^verbatim>\<open>long double\<close> when \<open>d\<close> is representable.
\<close>

definition num :: "real \<Rightarrow> Expr" where
  "num d = Literal (VNum (Finite d))"

definition strlit :: "string \<Rightarrow> Expr" where
  "strlit s = Literal (VStr s)"

definition brkt :: Token where
  "brkt = Token LSQRBRKT ''['' 1 NONE"

definition bt_equal :: Token where
  "bt_equal = Token BT_EQUAL ''`='' 1 NONE"

definition dot_dot :: Token where
  "dot_dot = Token DOT_DOT ''..'' 1 NONE"

definition x_var :: Expr where
  "x_var = Variable 0 x_tok"

definition assign_x :: "Expr \<Rightarrow> Stmt" where
  "assign_x e = Expression (Assign 1 x_tok (Token EQUAL ''='' 1 NONE) e)"

text \<open>
  \<^verbatim>\<open>x = ["a", "b"]; x[[2]] `= [5]; x[1] `= "z";\<close> with \<open>x\<close> a global variable.
\<close>

definition tagged_list_program :: "Stmt list" where
  "tagged_list_program =
     [assign_x (ListExpr [strlit ''a'', strlit ''b''] brkt),
      Expression (IndexAssign x_var (ListExpr [num 2] brkt) brkt bt_equal (ListExpr [num 5] brkt)),
      Expression (IndexAssign x_var (num 1) brkt bt_equal (strlit ''z''))]"

text \<open>
  The expression \<^verbatim>\<open>2 ^ 16383 * 2\<close>, with the power written as a literal: the product
  exceeds every finite \<^verbatim>\<open>long double\<close>.
\<close>

definition overflowing_product :: Expr where
  "overflowing_product =
     Binary (num (pow2 16383)) (Token PRODUCT ''*'' 1 NONE) (num 2)"

section \<open>The values of a descending range\<close>

text \<open>
  The values from which the loop of a range with a negative step cannot come to a value
  above the end \<open>b\<close>: negative infinity, negative zero when \<open>b\<close> is not negative, and the
  finite numbers that are at most \<open>b\<close>.
\<close>

definition below :: "real \<Rightarrow> long_double \<Rightarrow> bool" where
  "below b i =
     (case i of
        Finite x \<Rightarrow> x \<le> b
      | NZero \<Rightarrow> 0 \<le> b
      | NInf \<Rightarrow> True
      | _ \<Rightarrow> False)"

section \<open>A token stream\<close>

text \<open>The tokens of \<^verbatim>\<open>a += b;\<close> and a parser at their start.\<close>

definition a_tok :: Token where "a_tok = Token IDENTIFIER ''a'' 1 NONE"
definition b_tok :: Token where "b_tok = Token IDENTIFIER ''b'' 1 NONE"
definition plus_equal :: Token where "plus_equal = Token PLUS_EQUAL ''+='' 1 NONE"

definition compound_tokens :: "Token list" where
  "compound_tokens =
     [a_tok, plus_equal, b_tok, Token SEMICOLON '';'' 1 NONE, Token EOF [] 1 NONE]"

definition Parser_init :: "Token list \<Rightarrow> Parser" where
  "Parser_init tokens =
     \<lparr>m_tokens = tokens, m_current = 0, m_allowExpr = False, m_foundExpr = False,
      m_loopDepth = 0, diagnostics = [], free_addr = 0\<rparr>"

section \<open>Environment restoration and runtime errors\<close>

text \<open>
  A statement list whose statement \<open>s\<close> throws after the statements before it completed
  throws the same exception, whatever follows \<open>s\<close>.
\<close>

lemma executeAll_append_throw:
  assumes "executeAll f pre st = Some (Inr (), st1)"
      and "f s st1 = Some (Inl e, st2)"
  shows "executeAll f (pre @ s # post) st = Some (Inl e, st2)"
  using assms
proof (induction pre arbitrary: st)
  case Nil
  then show ?case by (simp add: ok_def bnd_def)
next
  case (Cons a pre)
  then show ?case
    by (auto simp: bnd_def split: option.splits sum.splits prod.splits)
qed

text \<open>
  \<^verbatim>\<open>executeBlock\<close> resets \<open>m_env\<close> when its statements complete, throw a runtime error
  or throw a return; a break or a continue passes through it with \<open>m_env\<close> as the
  statements left it.
\<close>

lemma executeBlock_restores_environment:
  assumes "executeAll (execute n) stmts (st\<lparr>m_env := env\<rparr>) = Some (r, st')"
      and "r = Inr () \<or> (\<exists>t msg. r = Inl (RuntimeError t msg)) \<or> (\<exists>v. r = Inl (ReturnThrow v))"
  shows "\<exists>r' st''. executeBlock (Suc n) stmts env st = Some (r', st'') \<and> m_env st'' = m_env st"
  using assms by (auto simp: ok_def throw_def runtimeError_def)

lemma executeBlock_passes_break_and_continue:
  assumes "executeAll (execute n) stmts (st\<lparr>m_env := env\<rparr>) = Some (Inl e, st')"
      and "e = BreakThrow \<or> e = ContinueThrow"
  shows "executeBlock (Suc n) stmts env st = Some (Inl e, st')"
  using assms by (auto simp: throw_def)

text \<open>
  Claim C1: every non-local unwind that exits a scope frame restores the current
  environment pointer to its value before the frame was entered; in particular, after a
  while loop whose block body exits via break or continue, the current environment is the
  one that was current when the loop began.

  \<^verbatim>\<open>executeBlock\<close> has handlers for \<^verbatim>\<open>RuntimeError\<close> and \<^verbatim>\<open>ReturnThrow\<close> only, so a
  \<^verbatim>\<open>BreakThrow\<close> or \<^verbatim>\<open>ContinueThrow\<close> leaves the block with \<open>m_env\<close> still at the block's
  environment, and \<^verbatim>\<open>visit(const While&)\<close> does not reset it. From any state,
  \<^verbatim>\<open>while (true) { break; }\<close> ends normally with \<open>m_env\<close> at the environment allocated
  for the block, a fresh address; and \<^verbatim>\<open>while (x) { x = false; continue; }\<close>, started in
  environment 0, ends in environment 1.
\<close>

theorem while_break_leaves_block_environment:
  "execute (Suc (Suc (Suc (Suc (Suc n))))) (While (Literal (VBool True)) (Block [Break])) st =
     Some (Inr (), st\<lparr>m_val := VBool True, m_env := length (envs st),
                      envs := envs st @ [\<lparr>parent = Some (m_env st), slots = []\<rparr>]\<rparr>)
   \<and> m_env x_true = 0
   \<and> map_option (\<lambda>r. (fst r, m_env (snd r))) (execute 7 continue_loop x_true) = Some (Inr (), 1)"
  by (simp add: bnd_def ok_def throw_def catchBreak_def catchContinue_def newEnvironment_def
      continue_loop_def x_true_def x_tok_def numeral_eq_Suc Interpreter_init_def
      Environment_get_def Environment_assign_def elem_def isEqual_ld_def)

text \<open>
  Claim C2, as stated: in script mode a runtime error inside a top-level statement aborts
  the rest of that statement, is reported exactly once, and evaluation resumes at the next
  top-level statement. It fails on two counts. In \<^verbatim>\<open>-"a"; -"b";\<close> only the first error is
  reported: the run differs from reporting the first error and then running the second
  statement. In \<^verbatim>\<open>if (true) { { -"a"; } -"b"; }\<close> the error inside the nested block does
  not abort the top-level statement: its remainder runs and reports a second error.
\<close>

theorem runtime_error_resume_counterexample:
  "map_option (reported \<circ> snd)
      (Interpreter_interpret 3 [negate 1 ''a'', negate 2 ''b''] Interpreter_init)
     = Some [(Token MINUS ''-'' 1 NONE, ''Operand must be a number.'')]
   \<and> Interpreter_interpret 3 [negate 1 ''a'', negate 2 ''b''] Interpreter_init
     \<noteq> bnd (Interpreter_interpret 3 [negate 1 ''a''] Interpreter_init)
           (\<lambda>_. Interpreter_interpret 3 [negate 2 ''b''])
   \<and> map_option (reported \<circ> snd)
        (Interpreter_interpret 8
           [If (Literal (VBool True)) (Block [Block [negate 1 ''a''], negate 2 ''b'']) None]
           Interpreter_init)
     = Some [(Token MINUS ''-'' 1 NONE, ''Operand must be a number.''),
             (Token MINUS ''-'' 2 NONE, ''Operand must be a number.'')]"
  by (simp add: Interpreter_interpret_def negate_def bnd_def ok_def throw_def numeral_eq_Suc
      Unary_apply_def runtimeError_def Interpreter_init_def newEnvironment_def)

text \<open>
  Claim C2, amended: when a statement \<open>s\<close> of a statement list throws a runtime error
  after the statements before it completed, then (a) if the list is the program,
  \<^verbatim>\<open>interpret\<close> reports the error once and returns, and no statement after \<open>s\<close> is
  executed; (b) if the list is the body of a block, \<^verbatim>\<open>executeBlock\<close> skips the rest of
  the block, resets the environment pointer, reports the error once and returns normally,
  so that execution goes on with what follows the block. Reporting appends exactly one
  entry to the diagnostic sink.
\<close>

theorem runtime_error_caught_by_interpret_and_block:
  assumes "executeAll (execute n) pre st = Some (Inr (), st1)"
      and "execute n s st1 = Some (Inl (RuntimeError t msg), st2)"
  shows "Interpreter_interpret n (pre @ s # post) st = Some (Inr (), runtimeError t msg st2)
       \<and> (\<forall>st0 env. st = st0\<lparr>m_env := env\<rparr> \<longrightarrow>
            executeBlock (Suc n) (pre @ s # post) env st0 =
              Some (Inr (), runtimeError t msg (st2\<lparr>m_env := m_env st0\<rparr>)))
       \<and> reported (runtimeError t msg st2) = reported st2 @ [(t, msg)]"
  using executeAll_append_throw [OF assms]
  by (auto simp: Interpreter_interpret_def ok_def runtimeError_def)

text \<open>
  The amended claim on \<^verbatim>\<open>-"a"; -"b";\<close>, as a program and as the body of a block entered
  from the initial state.
\<close>

theorem runtime_error_caught_by_interpret_and_block_witness:
  "Interpreter_interpret 3 ([] @ negate 1 ''a'' # [negate 2 ''b'']) Interpreter_init =
     Some (Inr (), runtimeError (Token MINUS ''-'' 1 NONE) ''Operand must be a number.''
                     (Interpreter_init\<lparr>m_val := VStr ''a''\<rparr>))
   \<and> executeBlock (Suc 3) ([] @ negate 1 ''a'' # [negate 2 ''b'']) 0 Interpreter_init =
     Some (Inr (), runtimeError (Token MINUS ''-'' 1 NONE) ''Operand must be a number.''
                     (Interpreter_init\<lparr>m_val := VStr ''a'', m_env := m_env Interpreter_init\<rparr>))"
proof -
  have pre: "executeAll (execute 3) [] Interpreter_init = Some (Inr (), Interpreter_init)"
    by (simp add: ok_def)
  have err: "execute 3 (negate 1 ''a'') Interpreter_init =
      Some (Inl (RuntimeError (Token MINUS ''-'' 1 NONE) ''Operand must be a number.''),
            Interpreter_init\<lparr>m_val := VStr ''a''\<rparr>)"
    by (simp add: negate_def eval_nat_numeral bnd_def ok_def throw_def Unary_apply_def)
  have m: "Interpreter_init = Interpreter_init\<lparr>m_env := 0\<rparr>"
    by (simp add: Interpreter_init_def)
  note T = runtime_error_caught_by_interpret_and_block [OF pre err, of "[negate 2 ''b'']"]
  from T have a:
    "Interpreter_interpret 3 ([] @ negate 1 ''a'' # [negate 2 ''b'']) Interpreter_init =
       Some (Inr (), runtimeError (Token MINUS ''-'' 1 NONE) ''Operand must be a number.''
                       (Interpreter_init\<lparr>m_val := VStr ''a''\<rparr>))"
    by (rule conjunct1)
  from T have "\<forall>st0 env. Interpreter_init = st0\<lparr>m_env := env\<rparr> \<longrightarrow>
      executeBlock (Suc 3) ([] @ negate 1 ''a'' # [negate 2 ''b'']) env st0 =
        Some (Inr (), runtimeError (Token MINUS ''-'' 1 NONE) ''Operand must be a number.''
                        (Interpreter_init\<lparr>m_val := VStr ''a'', m_env := m_env st0\<rparr>))"
    by simp
  with m have b:
    "executeBlock (Suc 3) ([] @ negate 1 ''a'' # [negate 2 ''b'']) 0 Interpreter_init =
       Some (Inr (), runtimeError (Token MINUS ''-'' 1 NONE) ''Operand must be a number.''
                       (Interpreter_init\<lparr>m_val := VStr ''a'', m_env := m_env Interpreter_init\<rparr>))"
    by blast
  from a b show ?thesis by (rule conjI)
qed

section \<open>Rounding\<close>

text \<open>The nearest integer: integers are fixed, the order is kept, and so is the sign.\<close>

lemma nearest_even_int [simp]: "nearest_even (of_int k) = k"
  by (simp add: nearest_even_def)

lemma nearest_even_zero [simp]: "nearest_even 0 = 0"
  using nearest_even_int [of 0] by simp

lemma nearest_even_bounds: "\<lfloor>y\<rfloor> \<le> nearest_even y \<and> nearest_even y \<le> \<lfloor>y\<rfloor> + 1"
  by (simp add: nearest_even_def Let_def)

lemma nearest_even_mono: "x \<le> y \<Longrightarrow> nearest_even x \<le> nearest_even y"
proof -
  assume xy: "x \<le> y"
  show ?thesis
  proof (cases "\<lfloor>x\<rfloor> = \<lfloor>y\<rfloor>")
    case True
    with xy show ?thesis by (auto simp: nearest_even_def Let_def)
  next
    case False
    with xy have "\<lfloor>x\<rfloor> + 1 \<le> \<lfloor>y\<rfloor>" using floor_mono [OF xy] by linarith
    with nearest_even_bounds [of x] nearest_even_bounds [of y] show ?thesis by linarith
  qed
qed

lemma nearest_even_neg: "nearest_even (- y) = - nearest_even y"
proof (cases "y = of_int \<lfloor>y\<rfloor>")
  case True
  then have "nearest_even (- of_int \<lfloor>y\<rfloor>) = - nearest_even (of_int \<lfloor>y\<rfloor>)"
    by (metis nearest_even_int of_int_minus)
  with True show ?thesis by simp
next
  case False
  then have f: "\<lfloor>- y\<rfloor> = - \<lfloor>y\<rfloor> - 1" by linarith
  have e: "even (- \<lfloor>y\<rfloor> - 1) \<longleftrightarrow> odd \<lfloor>y\<rfloor>" by simp
  show ?thesis
    unfolding nearest_even_def Let_def f e
    by (auto simp: algebra_simps)
qed

text \<open>Powers of two and the exponent of a number.\<close>

lemma pow2_pos [simp]: "0 < pow2 k"
  by (simp add: pow2_def)

lemma pow2_nonzero [simp]: "pow2 k \<noteq> 0"
  by (simp add: pow2_def)

lemma pow2_nonneg [simp]: "0 \<le> pow2 k"
  by (simp add: pow2_def)

lemma pow2_add: "pow2 (j + k) = pow2 j * pow2 k"
  by (simp add: pow2_def powr_add)

lemma log_pow2: "log 2 (pow2 k) = of_int k"
  by (simp add: pow2_def)

lemma pow2_mono: "j \<le> k \<Longrightarrow> pow2 j \<le> pow2 k"
  by (simp add: pow2_def)

lemma pow2_nat: "0 \<le> k \<Longrightarrow> pow2 k = of_int (2 ^ nat k)"
  by (simp add: pow2_def powr_real_of_int)

lemma pow2_minus: "pow2 (- k) = 1 / pow2 k"
  by (simp add: pow2_def powr_minus_divide)

lemma expo_neg [simp]: "expo (- x) = expo x"
  by (simp add: expo_def)

lemma expo_abs [simp]: "expo \<bar>x\<bar> = expo x"
  by (simp add: expo_def)

lemma ulp_neg [simp]: "ulp (- x) = ulp x"
  by (simp add: ulp_def)

lemma ulp_pos [simp]: "0 < ulp x"
  by (simp add: ulp_def)

lemma ulp_nonzero [simp]: "ulp x \<noteq> 0"
  by (simp add: ulp_def)

lemma ulp_nonneg [simp]: "0 \<le> ulp x"
  by (simp add: ulp_def)

lemma expo_lower: "- 16382 \<le> expo x"
  by (simp add: expo_def)

lemma expo_upper: assumes "0 < x" shows "x < pow2 (expo x + 1)"
proof -
  from assms have "x < 2 powr (of_int (\<lfloor>log 2 x\<rfloor> + 1))"
    using floor_log_eq_powr_iff [of x 2 "\<lfloor>log 2 x\<rfloor>"] by simp
  also have "\<dots> = pow2 (\<lfloor>log 2 x\<rfloor> + 1)" by (simp add: pow2_def)
  also have "\<dots> \<le> pow2 (expo x + 1)"
    using assms by (intro pow2_mono) (simp add: expo_def)
  finally show ?thesis .
qed

lemma expo_below: assumes "0 < x" and "- 16382 < expo x" shows "pow2 (expo x) \<le> x"
proof -
  from assms have e: "expo x = \<lfloor>log 2 x\<rfloor>" by (simp add: expo_def max_def split: if_splits)
  from assms(1) have "2 powr (of_int \<lfloor>log 2 x\<rfloor>) \<le> x"
    using floor_log_eq_powr_iff [of x 2 "\<lfloor>log 2 x\<rfloor>"] by simp
  with e show ?thesis by (simp add: pow2_def)
qed

lemma expo_mono: assumes "0 < x" and "x \<le> y" shows "expo x \<le> expo y"
proof -
  from assms have "log 2 x \<le> log 2 y" by simp
  then have "\<lfloor>log 2 x\<rfloor> \<le> \<lfloor>log 2 y\<rfloor>" by (rule floor_mono)
  with assms show ?thesis by (simp add: expo_def)
qed

lemma expo_le: assumes "0 < x" and "x < pow2 k" and "- 16382 \<le> k - 1" shows "expo x \<le> k - 1"
proof -
  from assms(1,2) have "log 2 x < of_int k"
    by (simp add: pow2_def log_less_iff)
  then have "\<lfloor>log 2 x\<rfloor> < k" by linarith
  with assms show ?thesis by (simp add: expo_def)
qed

lemma expo_eq:
  assumes "pow2 e \<le> \<bar>x\<bar>" and "\<bar>x\<bar> < pow2 (e + 1)" and "- 16382 \<le> e"
  shows "expo x = e"
proof -
  have pos: "0 < \<bar>x\<bar>" using assms(1) pow2_pos [of e] by linarith
  from assms(1,2) have "\<lfloor>log 2 \<bar>x\<bar>\<rfloor> = e"
    using floor_log_eq_powr_iff [of "\<bar>x\<bar>" 2 e] pos by (simp add: pow2_def)
  with assms(3) show ?thesis by (simp add: expo_def)
qed

text \<open>
  Rounding keeps the sign and the order, stays between the two powers of two around a
  number, and fixes every number that has a 64-bit significand at an exponent of the
  format.
\<close>

lemma round_finite_neg: "round_finite (- x) = - round_finite x"
  by (simp add: round_finite_def nearest_even_neg)

lemma round_finite_zero [simp]: "round_finite 0 = 0"
  by (simp add: round_finite_def)

lemma round_finite_nonneg: assumes "0 \<le> x" shows "0 \<le> round_finite x"
proof -
  have "nearest_even 0 \<le> nearest_even (x / ulp x)"
    using assms by (intro nearest_even_mono) (simp add: less_imp_le)
  then have "0 \<le> nearest_even (x / ulp x)" by simp
  then show ?thesis by (simp add: round_finite_def less_imp_le)
qed

lemma round_finite_upper: assumes "0 < x" shows "round_finite x \<le> pow2 (expo x + 1)"
proof -
  have u: "pow2 (expo x + 1) = of_int (2 ^ 64) * ulp x"
    using pow2_add [of 64 "expo x - 63"] pow2_nat [of 64] by (simp add: ulp_def add.commute)
  have "x / ulp x \<le> of_int (2 ^ 64)"
    using expo_upper [OF assms] u by (simp add: field_simps)
  then have "nearest_even (x / ulp x) \<le> nearest_even (of_int (2 ^ 64))"
    by (rule nearest_even_mono)
  then have "nearest_even (x / ulp x) \<le> 2 ^ 64" by (simp only: nearest_even_int)
  then have "of_int (nearest_even (x / ulp x)) * ulp x \<le> of_int (2 ^ 64) * ulp x"
    by (intro mult_right_mono) (simp_all add: less_imp_le)
  with u show ?thesis by (simp add: round_finite_def)
qed

lemma round_finite_lower:
  assumes "0 < x" and "- 16382 < expo x" shows "pow2 (expo x) \<le> round_finite x"
proof -
  have u: "pow2 (expo x) = of_int (2 ^ 63) * ulp x"
    using pow2_add [of 63 "expo x - 63"] pow2_nat [of 63] by (simp add: ulp_def)
  have "of_int (2 ^ 63) \<le> x / ulp x"
    using expo_below [OF assms] u by (simp add: field_simps)
  then have "nearest_even (of_int (2 ^ 63)) \<le> nearest_even (x / ulp x)"
    by (rule nearest_even_mono)
  then have "2 ^ 63 \<le> nearest_even (x / ulp x)" by (simp only: nearest_even_int)
  then have "of_int (2 ^ 63) * ulp x \<le> of_int (nearest_even (x / ulp x)) * ulp x"
    by (intro mult_right_mono) (simp_all add: less_imp_le)
  with u show ?thesis by (simp add: round_finite_def)
qed

lemma round_finite_mono_pos:
  assumes "0 < x" and "x \<le> y" shows "round_finite x \<le> round_finite y"
proof (cases "expo x = expo y")
  case True
  then have u: "ulp x = ulp y" by (simp add: ulp_def)
  have "x / ulp y \<le> y / ulp y" using assms(2) by (simp add: divide_right_mono less_imp_le)
  then have "nearest_even (x / ulp y) \<le> nearest_even (y / ulp y)" by (rule nearest_even_mono)
  then show ?thesis
    unfolding round_finite_def u by (intro mult_right_mono) (simp_all add: less_imp_le)
next
  case False
  with expo_mono [OF assms] have l: "expo x + 1 \<le> expo y" by simp
  with expo_lower [of x] have "- 16382 < expo y" by linarith
  from assms have "0 < y" by simp
  note round_finite_upper [OF assms(1)]
  also have "pow2 (expo x + 1) \<le> pow2 (expo y)" using l by (rule pow2_mono)
  also note round_finite_lower [OF \<open>0 < y\<close> \<open>- 16382 < expo y\<close>]
  finally show ?thesis .
qed

lemma round_finite_mono: assumes "x \<le> y" shows "round_finite x \<le> round_finite y"
proof -
  consider "0 < x" | "x \<le> 0" "0 \<le> y" | "y < 0" by linarith
  then show ?thesis
  proof cases
    case 1
    then show ?thesis using assms by (rule round_finite_mono_pos)
  next
    case 2
    from 2(1) have "0 \<le> round_finite (- x)" by (intro round_finite_nonneg) simp
    then have "round_finite x \<le> 0" by (simp add: round_finite_neg)
    also have "0 \<le> round_finite y" using 2(2) by (rule round_finite_nonneg)
    finally show ?thesis .
  next
    case 3
    then have "0 < - y" "- y \<le> - x" using assms by simp_all
    then have "round_finite (- y) \<le> round_finite (- x)" by (rule round_finite_mono_pos)
    then show ?thesis by (simp add: round_finite_neg)
  qed
qed

lemma scaled_quotient: "b = q * u \<Longrightarrow> u \<noteq> 0 \<Longrightarrow> a * b / u = a * (q::real)"
  by simp

lemma round_finite_exact:
  assumes "\<bar>m\<bar> < 2 ^ 64" and "- 16445 \<le> j"
  shows "round_finite (of_int m * pow2 j) = of_int m * pow2 j"
proof (cases "m = 0")
  case True
  then show ?thesis by simp
next
  case False
  let ?x = "of_int m * pow2 j"
  have ax: "\<bar>?x\<bar> = of_int \<bar>m\<bar> * pow2 j" by (simp add: abs_mult abs_of_pos)
  have pos: "0 < \<bar>?x\<bar>" using False by simp
  have "of_int \<bar>m\<bar> < (of_int (2 ^ 64) :: real)" using assms(1) by (simp only: of_int_less_iff)
  then have "of_int \<bar>m\<bar> * pow2 j < of_int (2 ^ 64) * pow2 j"
    by (intro mult_strict_right_mono) simp_all
  also have "\<dots> = pow2 (64 + j)" using pow2_add [of 64 j] pow2_nat [of 64] by simp
  finally have "\<bar>?x\<bar> < pow2 (64 + j)" using ax by simp
  from expo_le [OF pos this] assms(2) have "expo \<bar>?x\<bar> \<le> 63 + j" by simp
  then have k: "0 \<le> j - (expo ?x - 63)" by simp
  let ?k = "j - (expo ?x - 63)"
  have "pow2 j = pow2 ?k * ulp ?x" using pow2_add [of ?k "expo ?x - 63"] by (simp add: ulp_def)
  then have d: "?x / ulp ?x = of_int m * pow2 ?k" by (rule scaled_quotient) simp
  also have "\<dots> = of_int (m * 2 ^ nat ?k)" using pow2_nat [OF k] by simp
  finally have "nearest_even (?x / ulp ?x) = m * 2 ^ nat ?k" by (simp only: nearest_even_int)
  then have "round_finite ?x = of_int (m * 2 ^ nat ?k) * ulp ?x" by (simp add: round_finite_def)
  also have "\<dots> = of_int m * pow2 ?k * ulp ?x" using pow2_nat [OF k] by simp
  also have "\<dots> = ?x" using d [symmetric] by (simp only:) simp
  finally show ?thesis .
qed

lemma round_finite_overflow:
  assumes "pow2 16384 \<le> x" shows "pow2 16384 \<le> round_finite x"
proof -
  have pos: "0 < x" using assms pow2_pos [of 16384] by linarith
  have "log 2 (pow2 16384) \<le> log 2 x" using assms pos by simp
  then have "16384 \<le> log 2 x" by (simp only: log_pow2)
  then have "16384 \<le> \<lfloor>log 2 x\<rfloor>" by linarith
  then have e: "16384 \<le> expo x" using pos by (simp add: expo_def)
  then have "- 16382 < expo x" by simp
  note pow2_mono [OF e]
  also note round_finite_lower [OF pos \<open>- 16382 < expo x\<close>]
  finally show ?thesis .
qed

text \<open>
  The numbers of the format: zero, the integers below \<open>2 ^ 64\<close> in magnitude and their
  multiples by a power of two. An operation whose exact result is such a number returns
  it; one whose exact result reaches \<open>2 ^ 16384\<close> returns infinity.
\<close>

lemma representable_scaled:
  assumes "\<bar>m\<bar> < 2 ^ 64" and "- 16445 \<le> j" and "j \<le> 16320"
  shows "representable (of_int m * pow2 j)"
proof -
  have "of_int \<bar>m\<bar> < (of_int (2 ^ 64) :: real)" using assms(1) by (simp only: of_int_less_iff)
  then have "of_int \<bar>m\<bar> * pow2 j < of_int (2 ^ 64) * pow2 j"
    by (intro mult_strict_right_mono) simp_all
  also have "\<dots> = pow2 (64 + j)" using pow2_add [of 64 j] pow2_nat [of 64] by simp
  also have "\<dots> \<le> pow2 16384" using assms(3) by (intro pow2_mono) simp
  finally have "\<bar>of_int m * pow2 j\<bar> < pow2 16384" by (simp add: abs_mult abs_of_pos)
  with round_finite_exact [OF assms(1,2)] show ?thesis by (simp add: representable_def)
qed

lemma pow2_zero [simp]: "pow2 0 = 1"
  by (simp add: pow2_def)

lemma representable_int: "\<bar>m\<bar> < 2 ^ 64 \<Longrightarrow> representable (of_int m)"
  using representable_scaled [of m 0] by simp

lemma representable_zero: "representable 0"
  using representable_int [of 0] by simp

lemma rnd_exact: "representable x \<Longrightarrow> x \<noteq> 0 \<Longrightarrow> rnd x = Finite x"
  by (simp add: rnd_def representable_def Let_def)

lemma rnd_overflow: assumes "pow2 16384 \<le> x" shows "rnd x = PInf"
proof -
  have "0 < x" using assms pow2_pos [of 16384] by linarith
  moreover have "pow2 16384 \<le> \<bar>round_finite x\<bar>"
    using round_finite_overflow [OF assms] by linarith
  ultimately show ?thesis by (simp add: rnd_def Let_def)
qed

text \<open>
  Rounding a second time changes nothing, so the result of every operation is a
  \<^verbatim>\<open>long double\<close>.
\<close>

lemma round_finite_significand:
  "\<bar>nearest_even (x / ulp x)\<bar> \<le> 2 ^ 64"
proof -
  have a: "nearest_even (y / ulp y) \<le> 2 ^ 64" if "0 < y" for y
  proof -
    have u: "pow2 (expo y + 1) = of_int (2 ^ 64) * ulp y"
      using pow2_add [of 64 "expo y - 63"] pow2_nat [of 64] by (simp add: ulp_def add.commute)
    have "y / ulp y \<le> of_int (2 ^ 64)"
      using expo_upper [OF that] u by (simp add: field_simps)
    then have "nearest_even (y / ulp y) \<le> nearest_even (of_int (2 ^ 64))"
      by (rule nearest_even_mono)
    then show ?thesis by (simp only: nearest_even_int)
  qed
  have b: "0 \<le> nearest_even (y / ulp y)" if "0 \<le> y" for y
  proof -
    have "nearest_even 0 \<le> nearest_even (y / ulp y)"
      using that by (intro nearest_even_mono) (simp add: less_imp_le)
    then show ?thesis by simp
  qed
  consider "0 < x" | "x = 0" | "x < 0" by linarith
  then show ?thesis
  proof cases
    case 1
    with a [of x] b [of x] show ?thesis by simp
  next
    case 2
    then show ?thesis by simp
  next
    case 3
    then have "0 < - x" by simp
    from a [OF this] b [of "- x"] 3 show ?thesis by (simp add: nearest_even_neg)
  qed
qed

lemma round_finite_idem: "round_finite (round_finite x) = round_finite x"
proof -
  let ?m = "nearest_even (x / ulp x)"
  let ?j = "expo x - 63"
  have j: "- 16445 \<le> ?j" using expo_lower [of x] by simp
  have r: "round_finite x = of_int ?m * pow2 ?j" by (simp add: round_finite_def ulp_def)
  show ?thesis
  proof (cases "\<bar>?m\<bar> < 2 ^ 64")
    case True
    from round_finite_exact [OF True j] r show ?thesis by simp
  next
    case False
    with round_finite_significand [of x] have "\<bar>?m\<bar> = 2 ^ 64" by linarith
    then consider "?m = 2 ^ 64" | "?m = - (2 ^ 64)" by linarith
    then have "of_int ?m * pow2 ?j = of_int (?m div 2) * pow2 (?j + 1) \<and> \<bar>?m div 2\<bar> < 2 ^ 64"
    proof cases
      case 1
      then show ?thesis using pow2_add [of ?j 1] pow2_nat [of 1] by simp
    next
      case 2
      then show ?thesis using pow2_add [of ?j 1] pow2_nat [of 1] by simp
    qed
    moreover have "- 16445 \<le> ?j + 1" using j by simp
    ultimately show ?thesis using round_finite_exact [of "?m div 2" "?j + 1"] r by simp
  qed
qed

lemma representable_neg: "representable x \<Longrightarrow> representable (- x)"
  by (simp add: representable_def round_finite_neg)

lemma representable_abs: "representable x \<Longrightarrow> representable \<bar>x\<bar>"
  by (cases "0 \<le> x") (simp_all add: representable_neg abs_if)

lemma rnd_long_double: "is_long_double (rnd x)"
  using representable_zero
  by (auto simp: is_long_double_def rnd_def Let_def representable_def round_finite_idem)

lemma lround_long: "- (2 ^ 63) \<le> lround d \<and> lround d < 2 ^ 63"
  by (cases d) (simp_all add: lround_def Let_def)

lemma of_long_long_double:
  assumes "- (2 ^ 63) \<le> n" and "n < 2 ^ 63"
  shows "is_long_double (of_long n)"
proof -
  from assms have "\<bar>n\<bar> < 2 ^ 64" by simp
  then show ?thesis by (simp add: of_long_def is_long_double_def representable_int)
qed

lemma operations_return_long_doubles:
  "is_long_double (ld_add a b)" "is_long_double (ld_sub a b)" "is_long_double (ld_mul a b)"
  "is_long_double (ld_div a b)" "is_long_double (std_pow a b)"
  "is_long_double a \<Longrightarrow> is_long_double (ld_neg a)"
  "is_long_double a \<Longrightarrow> is_long_double (ld_fabs a)"
  "is_long_double (of_long (lround a))"
proof -
  have z: "is_long_double (Finite 0)" "is_long_double (Finite 1)" "is_long_double NZero"
          "is_long_double PInf" "is_long_double NInf" "is_long_double NaN"
    using representable_zero representable_int [of 1] by (simp_all add: is_long_double_def)
  show "is_long_double (ld_add a b)" for a b
    by (simp add: ld_add_def z rnd_long_double)
  then show "is_long_double (ld_sub a b)" by (simp add: ld_sub_def)
  show "is_long_double (ld_mul a b)" by (simp add: ld_mul_def z rnd_long_double)
  show "is_long_double (ld_div a b)" by (simp add: ld_div_def z rnd_long_double)
  show "is_long_double (std_pow a b)" by (simp add: std_pow_def z rnd_long_double)
  show "is_long_double a \<Longrightarrow> is_long_double (ld_neg a)"
    by (cases a) (simp_all add: is_long_double_def representable_neg representable_zero)
  show "is_long_double a \<Longrightarrow> is_long_double (ld_fabs a)"
    by (cases a) (simp_all add: is_long_double_def representable_abs representable_zero)
  show "is_long_double (of_long (lround a))"
    using lround_long [of a] by (intro of_long_long_double) simp_all
qed

section \<open>Comparisons\<close>

lemma epsilon_pos: "0 < epsilon"
  by (simp add: epsilon_def)

text \<open>
  The test of \<^verbatim>\<open>isEqual\<close> is the epsilon-equality of the specification, on the computed
  difference.
\<close>

lemma isEqual_ld_epsilon_equal: "isEqual_ld a b = epsilon_equal a b"
  using epsilon_pos
  by (cases "ld_sub a b") (simp_all add: isEqual_ld_def epsilon_equal_def ld_less_def real_of_def)

text \<open>
  Two numbers that are not epsilon-equal, and are not two infinities of one sign, differ:
  one is at most the other only when it is below it.
\<close>

lemma ld_le_less:
  assumes "\<not> epsilon_equal a b" and "\<not> ((a = PInf \<and> b = PInf) \<or> (a = NInf \<and> b = NInf))"
  shows "ld_le a b = ld_less a b" and "ld_le b a = ld_less b a"
  using assms epsilon_pos
  by (cases a; cases b;
      auto simp: epsilon_equal_def ld_sub_def ld_add_def ld_le_def ld_less_def real_of_def
           split: if_splits)+

text \<open>The product of \<open>2 ^ 16383\<close> and 2 overflows.\<close>

lemma overflowing_product_value: "ld_mul (Finite (pow2 16383)) (Finite 2) = PInf"
proof -
  have "pow2 16383 * 2 = pow2 16384" using pow2_add [of 16383 1] pow2_nat [of 1] by simp
  then have "rnd (pow2 16383 * 2) = PInf" using rnd_overflow [of "pow2 16383 * 2"] by simp
  then show ?thesis by (simp add: ld_mul_def isfinite_def real_of_def)
qed

text \<open>
  Claim C8, as stated: for numbers that are not epsilon-equal the four comparisons follow
  the usual numeric order. It fails on two infinities of one sign. The product
  \<^verbatim>\<open>2 ^ 16383 * 2\<close> is positive infinity; the difference of two infinities is NaN, so they
  are not epsilon-equal, and \<^verbatim>\<open>>=\<close> and \<^verbatim>\<open><=\<close> evaluate to false on them, although
  infinity is at most infinity in the order of \<^verbatim>\<open>long double\<close>.
\<close>

theorem equal_infinities_compare_false:
  "map_option (m_val \<circ> snd) (accept 2 overflowing_product Interpreter_init) = Some (VNum PInf)
   \<and> map_option (m_val \<circ> snd)
        (accept 3 (Binary overflowing_product (Token GT_EQUAL ''>='' 1 NONE) overflowing_product)
           Interpreter_init) = Some (VBool False)
   \<and> map_option (m_val \<circ> snd)
        (accept 3 (Binary overflowing_product (Token LT_EQUAL ''<='' 1 NONE) overflowing_product)
           Interpreter_init) = Some (VBool False)
   \<and> ld_le PInf PInf \<and> \<not> isEqual_ld PInf PInf"
  by (simp add: overflowing_product_def num_def numeral_eq_Suc bnd_def ok_def Binary_apply_def
      overflowing_product_value isEqual_ld_def ld_sub_def ld_add_def ld_less_def ld_le_def
      ld_greater_def)

text \<open>
  The specification's comparison on numbers that are epsilon-equal and on numbers that are
  not, and the comparison branches of \<^verbatim>\<open>visit(const Binary&)\<close>.
\<close>

lemma comparison_spec_not_equal:
  assumes "\<not> epsilon_equal a b"
  shows "comparison_spec GREATER a b = ld_greater a b"
    and "comparison_spec GT_EQUAL a b = ld_greater a b"
    and "comparison_spec LESS a b = ld_less a b"
    and "comparison_spec LT_EQUAL a b = ld_less a b"
proof -
  show "comparison_spec GREATER a b = ld_greater a b"
    using assms by (simp add: comparison_spec_def ld_greater_def ld_less_def)
  show "comparison_spec LESS a b = ld_less a b"
    using assms by (simp add: comparison_spec_def ld_greater_def ld_less_def)
  show "comparison_spec GT_EQUAL a b = ld_greater a b"
  proof (cases "(a = PInf \<and> b = PInf) \<or> (a = NInf \<and> b = NInf)")
    case True
    with assms show ?thesis by (auto simp add: comparison_spec_def ld_greater_def ld_less_def)
  next
    case False
    with assms ld_le_less(2) [OF assms False] show ?thesis
      by (auto simp add: comparison_spec_def ld_greater_def)
  qed
  show "comparison_spec LT_EQUAL a b = ld_less a b"
  proof (cases "(a = PInf \<and> b = PInf) \<or> (a = NInf \<and> b = NInf)")
    case True
    with assms show ?thesis by (auto simp add: comparison_spec_def ld_greater_def ld_less_def)
  next
    case False
    with assms ld_le_less(1) [OF assms False] show ?thesis
      by (auto simp add: comparison_spec_def)
  qed
qed

lemma comparison_spec_equal:
  assumes "epsilon_equal a b"
  shows "\<not> comparison_spec GREATER a b" and "comparison_spec GT_EQUAL a b"
    and "\<not> comparison_spec LESS a b" and "comparison_spec LT_EQUAL a b"
  using assms by (simp_all add: comparison_spec_def)

lemma Binary_apply_comparison:
  assumes "getType op \<in> {GREATER, LESS, GT_EQUAL, LT_EQUAL}"
  shows "Binary_apply n op (VNum a) (VNum b) st =
           Some (Inr (), st\<lparr>m_val := VBool (comparison_spec (getType op) a b)\<rparr>)"
proof (cases "epsilon_equal a b")
  case True
  from assms comparison_spec_equal [OF True] True show ?thesis
    by (auto simp: Binary_apply_def ok_def isEqual_ld_epsilon_equal)
next
  case False
  from assms comparison_spec_not_equal [OF False] False show ?thesis
    by (auto simp: Binary_apply_def ok_def isEqual_ld_epsilon_equal)
qed

lemma Binary_apply_comparison_error:
  assumes "getType op \<in> {GREATER, LESS, GT_EQUAL, LT_EQUAL}"
      and "\<not> (isNum left \<and> isNum right)"
  shows "Binary_apply n op left right st =
           Some (Inl (RuntimeError op ''Operands must be numbers.''), st)"
  using assms
  by (cases left; cases right) (auto simp: Binary_apply_def throw_def)

text \<open>
  Claim C8, amended: for values compared with \<open>>\<close>, \<open><\<close>, \<open>>=\<close>, \<open><=\<close>: if either operand is
  not a number a runtime error is raised; for numbers that are epsilon-equal (their
  computed difference is below \<open>epsilon\<close> in magnitude) the strict comparisons evaluate to
  false and the non-strict ones to true; for two infinities of one sign all four evaluate
  to false; otherwise the operators follow the usual order of the numbers, in which NaN is
  neither below, nor above, nor equal to any number. Here both operands have been
  evaluated without a throw, to the values left in \<open>m_val\<close> by \<open>st1\<close> and \<open>st2\<close>.
\<close>

theorem comparison_operators:
  assumes "getType op \<in> {GREATER, LESS, GT_EQUAL, LT_EQUAL}"
      and "accept n l st = Some (Inr (), st1)"
      and "accept n r st1 = Some (Inr (), st2)"
  shows "accept (Suc n) (Binary l op r) st =
     (case (m_val st1, m_val st2) of
        (VNum a, VNum b) \<Rightarrow>
          Some (Inr (), st2\<lparr>m_val := VBool (comparison_spec (getType op) a b)\<rparr>)
      | _ \<Rightarrow> Some (Inl (RuntimeError op ''Operands must be numbers.''), st2))"
proof (cases "isNum (m_val st1) \<and> isNum (m_val st2)")
  case True
  then obtain a b where v: "m_val st1 = VNum a" "m_val st2 = VNum b"
    by (cases "m_val st1"; cases "m_val st2") simp_all
  with assms(2,3) Binary_apply_comparison [OF assms(1)] show ?thesis by (simp add: bnd_def)
next
  case False
  from assms(2,3) Binary_apply_comparison_error [OF assms(1) False] False show ?thesis
    by (auto simp add: bnd_def split: Value.splits)
qed

text \<open>
  The theorem on \<open>1 <= 1 + 2^-50\<close> and \<open>1 < 1 + 2^-50\<close>, whose operands are
  epsilon-equal, on \<open>1 < 2\<close> and on \<open>1 < "a"\<close>.
\<close>

lemma one_and_a_bit:
  "ld_sub (Finite 1) (Finite (1 + pow2 (- 50))) = Finite (- pow2 (- 50))"
proof -
  have "representable (of_int (- 1) * pow2 (- 50))" by (rule representable_scaled) simp_all
  then have "rnd (- pow2 (- 50)) = Finite (- pow2 (- 50))" using rnd_exact by simp
  moreover have "1 + pow2 (- 50) \<noteq> 0" using pow2_pos [of "- 50"] by linarith
  ultimately show ?thesis by (simp add: ld_sub_def ld_add_def real_of_def)
qed

lemma pow2_minus_50: "pow2 (- 50) < epsilon"
proof -
  have "pow2 (- 50) = 1 / 2 ^ 50" using pow2_minus [of 50] pow2_nat [of 50] by simp
  then show ?thesis by (simp add: epsilon_def)
qed

theorem comparison_operators_witness:
  "accept (Suc 1) (Binary (num 1) (Token LT_EQUAL ''<='' 1 NONE) (num (1 + pow2 (- 50))))
       Interpreter_init =
     Some (Inr (), Interpreter_init\<lparr>m_val := VBool True\<rparr>)
   \<and> accept (Suc 1) (Binary (num 1) (Token LESS ''<'' 1 NONE) (num (1 + pow2 (- 50))))
       Interpreter_init =
     Some (Inr (), Interpreter_init\<lparr>m_val := VBool False\<rparr>)
   \<and> accept (Suc 1) (Binary (num 1) (Token LESS ''<'' 1 NONE) (num 2)) Interpreter_init =
     Some (Inr (), Interpreter_init\<lparr>m_val := VBool True\<rparr>)
   \<and> accept (Suc 1) (Binary (num 1) (Token LESS ''<'' 1 NONE) (Literal (VStr ''a'')))
       Interpreter_init =
     Some (Inl (RuntimeError (Token LESS ''<'' 1 NONE) ''Operands must be numbers.''),
           Interpreter_init\<lparr>m_val := VStr ''a''\<rparr>)"
proof -
  let ?b = "1 + pow2 (- 50)"
  have l: "accept 1 (num 1) Interpreter_init =
             Some (Inr (), Interpreter_init\<lparr>m_val := VNum (Finite 1)\<rparr>)"
    by (simp add: ok_def num_def)
  have r: "accept 1 (num ?b) (Interpreter_init\<lparr>m_val := VNum (Finite 1)\<rparr>) =
             Some (Inr (), Interpreter_init\<lparr>m_val := VNum (Finite ?b)\<rparr>)"
    by (simp add: ok_def num_def)
  have t: "accept 1 (num 2) (Interpreter_init\<lparr>m_val := VNum (Finite 1)\<rparr>) =
             Some (Inr (), Interpreter_init\<lparr>m_val := VNum (Finite 2)\<rparr>)"
    by (simp add: ok_def num_def)
  have s: "accept 1 (Literal (VStr ''a'')) (Interpreter_init\<lparr>m_val := VNum (Finite 1)\<rparr>) =
             Some (Inr (), Interpreter_init\<lparr>m_val := VStr ''a''\<rparr>)"
    by (simp add: ok_def)
  have e: "comparison_spec LT_EQUAL (Finite 1) (Finite ?b)"
          "\<not> comparison_spec LESS (Finite 1) (Finite ?b)"
    using pow2_minus_50 by (simp_all add: comparison_spec_def epsilon_equal_def one_and_a_bit)
  have "representable (of_int (- 1))" by (rule representable_int) simp
  then have "rnd (- 1) = Finite (- 1)" using rnd_exact [of "- 1"] by simp
  then have d: "ld_sub (Finite 1) (Finite 2) = Finite (- 1)"
    by (simp add: ld_sub_def ld_add_def real_of_def)
  have f: "comparison_spec LESS (Finite 1) (Finite 2)"
    by (simp add: comparison_spec_def epsilon_equal_def d epsilon_def ld_less_def real_of_def)
  show ?thesis
    using comparison_operators [OF _ l r, of "Token LT_EQUAL ''<='' 1 NONE"]
          comparison_operators [OF _ l r, of "Token LESS ''<'' 1 NONE"]
          comparison_operators [OF _ l t, of "Token LESS ''<'' 1 NONE"]
          comparison_operators [OF _ l s, of "Token LESS ''<'' 1 NONE"] e f
    by simp
qed

section \<open>Index expressions\<close>

text \<open>What \<^verbatim>\<open>verifyIndices\<close> accepts is what the specification calls a valid index.\<close>

lemma verifyIndex_valid: "validIndex len d \<Longrightarrow> verifyIndex len tok d = None"
  by (simp add: validIndex_def verifyIndex_def)

lemma verifyIndex_invalid:
  "\<not> validIndex len d \<Longrightarrow> \<exists>msg. verifyIndex len tok d = Some (RuntimeError tok msg)"
  by (auto simp: validIndex_def verifyIndex_def)

lemma verifyEach_valid:
  "\<forall>d\<in>set ds. validIndex len d \<Longrightarrow> verifyEach len tok (map VNum ds) = None"
  by (induction ds) (simp_all add: verifyIndex_valid)

lemma verifyEach_invalid:
  "\<exists>d\<in>set ds. \<not> validIndex len d \<Longrightarrow>
     \<exists>msg. verifyEach len tok (map VNum ds) = Some (RuntimeError tok msg)"
proof (induction ds)
  case Nil
  then show ?case by simp
next
  case (Cons d ds)
  show ?case
  proof (cases "validIndex len d")
    case True
    with Cons show ?thesis by (simp add: verifyIndex_valid)
  next
    case False
    from verifyIndex_invalid [OF this, of tok] show ?thesis by auto
  qed
qed

lemma elemZ_valid:
  "validIndex (length xs) d \<Longrightarrow> elemZ xs (lround d - 1) = Some (ith xs d)"
  by (auto simp: validIndex_def elemZ_def elem_def ith_def nat_diff_distrib)

lemma gather_valid:
  "\<forall>d\<in>set ds. validIndex (length xs) d \<Longrightarrow>
     gather xs (map VNum ds) acc = Inr (acc @ map (ith xs) ds)"
  by (induction ds arbitrary: acc) (simp_all add: elemZ_valid)

lemma Index_apply_scalar_valid:
  assumes "elem (lists st) p = Some L" "validIndex (length (m_list L)) d"
  shows "Index_apply p (VNum d) tok st = Some (Inr (), st\<lparr>m_val := ith (m_list L) d\<rparr>)"
  using assms
  by (simp add: Index_apply_def verifyIndices_def verifyIndex_valid elemZ_valid bnd_def ok_def)

lemma Index_apply_scalar_invalid:
  assumes "elem (lists st) p = Some L" "\<not> validIndex (length (m_list L)) d"
  shows "\<exists>msg. Index_apply p (VNum d) tok st = Some (Inl (RuntimeError tok msg), st)"
  using assms verifyIndex_invalid [OF assms(2), of tok]
  by (auto simp: Index_apply_def verifyIndices_def bnd_def throw_def)

lemma Index_apply_list_valid:
  assumes "elem (lists st) p = Some L"
      and "elem (lists st) ip = Some \<lparr>m_list = map VNum ds, m_type = ty\<rparr>"
      and "ty = numList \<or> (ty = emptyList \<and> ds = [])"
      and "\<forall>d\<in>set ds. validIndex (length (m_list L)) d"
  shows "Index_apply p (VList ip) tok st =
           Some (Inr (), st\<lparr>lists := lists st @ [\<lparr>m_list = map (ith (m_list L)) ds,
                                                    m_type = m_type L\<rparr>],
                            m_val := VList (length (lists st))\<rparr>)"
  using assms
  by (auto simp: Index_apply_def verifyIndices_def verifyEach_valid gather_valid bnd_def ok_def
                 newList_def)

lemma Index_apply_list_invalid:
  assumes "elem (lists st) p = Some L"
      and "elem (lists st) ip = Some \<lparr>m_list = map VNum ds, m_type = ty\<rparr>"
      and "ty = numList \<or> (ty = emptyList \<and> ds = [])"
      and "\<not> (\<forall>d\<in>set ds. validIndex (length (m_list L)) d)"
  shows "\<exists>msg. Index_apply p (VList ip) tok st = Some (Inl (RuntimeError tok msg), st)"
proof -
  from assms(4) have "\<exists>d\<in>set ds. \<not> validIndex (length (m_list L)) d" by blast
  from verifyEach_invalid [OF this, of tok] obtain msg where
    "verifyEach (length (m_list L)) tok (map VNum ds) = Some (RuntimeError tok msg)" by blast
  with assms show ?thesis
    by (auto simp: Index_apply_def verifyIndices_def bnd_def throw_def)
qed

text \<open>\<^verbatim>\<open>visit(const Index&)\<close> once the list and the index are evaluated.\<close>

lemma Index_apply_not_index:
  assumes "elem (lists st) p = Some L" and "\<not> isNum idx" and "\<not> isList idx"
  shows "Index_apply p idx tok st =
           Some (Inl (RuntimeError tok ''The index must be a list or a number.''), st)"
  using assms
  by (cases idx) (simp_all add: Index_apply_def verifyIndices_def bnd_def throw_def)

lemma Index_apply_list_not_numbers:
  assumes "elem (lists st) p = Some L" and "elem (lists st) ip = Some I"
      and "m_type I \<noteq> numList" and "m_type I \<noteq> emptyList"
  shows "Index_apply p (VList ip) tok st =
           Some (Inl (RuntimeError tok ''The indexing list must contain numbers.''), st)"
  using assms
  by (simp add: Index_apply_def verifyIndices_def bnd_def throw_def)

lemma accept_Index:
  assumes "accept n lst st = Some (Inr (), st1)" "m_val st1 = VList p"
      and "accept n idx st1 = Some (Inr (), st2)"
  shows "accept (Suc n) (Index tok lst idx) st = Index_apply p (m_val st2) tok st2"
  using assms by (simp add: bnd_def)

text \<open>
  Claim C7: for a list \<open>L\<close> and a scalar index accepted as an integer \<open>i\<close> with
  \<open>1 \<le> i \<le> |L|\<close>, \<open>L[i]\<close> evaluates to the \<open>i\<close>-th element of \<open>L\<close>, counting from one;
  for an index list whose elements are all in-bounds positive integers, \<open>L[[I]]\<close>
  evaluates to a new list holding the gathered elements in index-list order, with the type
  tag of \<open>L\<close>; an index that is not a positive integer or exceeds \<open>|L|\<close> raises a runtime
  error. Here the list expression has evaluated to the list at address \<open>p\<close>, which holds
  \<open>L\<close> after the index expression is evaluated. The first conjunct is the scalar index, the
  second the list of numbers (tagged as a list of numbers, or the empty list); the last two
  are the indices that are neither: a value that is no number and no list, and a list
  tagged with another alternative.
\<close>

theorem index_read:
  assumes "accept n lst st = Some (Inr (), st1)" "m_val st1 = VList p"
      and "accept n idx st1 = Some (Inr (), st2)"
      and "elem (lists st2) p = Some L"
  shows
   "(\<forall>d. m_val st2 = VNum d \<longrightarrow>
        (if validIndex (length (m_list L)) d
         then accept (Suc n) (Index tok lst idx) st =
                Some (Inr (), st2\<lparr>m_val := ith (m_list L) d\<rparr>)
         else \<exists>msg. accept (Suc n) (Index tok lst idx) st =
                Some (Inl (RuntimeError tok msg), st2)))
    \<and> (\<forall>ip ds ty. m_val st2 = VList ip
          \<and> elem (lists st2) ip = Some \<lparr>m_list = map VNum ds, m_type = ty\<rparr>
          \<and> (ty = numList \<or> (ty = emptyList \<and> ds = [])) \<longrightarrow>
        (if \<forall>d\<in>set ds. validIndex (length (m_list L)) d
         then accept (Suc n) (Index tok lst idx) st =
                Some (Inr (), st2\<lparr>lists := lists st2 @
                                    [\<lparr>m_list = map (ith (m_list L)) ds, m_type = m_type L\<rparr>],
                                  m_val := VList (length (lists st2))\<rparr>)
         else \<exists>msg. accept (Suc n) (Index tok lst idx) st =
                Some (Inl (RuntimeError tok msg), st2)))
    \<and> (\<not> isNum (m_val st2) \<and> \<not> isList (m_val st2) \<longrightarrow>
          accept (Suc n) (Index tok lst idx) st =
            Some (Inl (RuntimeError tok ''The index must be a list or a number.''), st2))
    \<and> (\<forall>ip I. m_val st2 = VList ip \<and> elem (lists st2) ip = Some I
          \<and> m_type I \<noteq> numList \<and> m_type I \<noteq> emptyList \<longrightarrow>
          accept (Suc n) (Index tok lst idx) st =
            Some (Inl (RuntimeError tok ''The indexing list must contain numbers.''), st2))"
proof (intro conjI allI impI)
  fix d assume "m_val st2 = VNum d"
  then show "if validIndex (length (m_list L)) d
         then accept (Suc n) (Index tok lst idx) st =
                Some (Inr (), st2\<lparr>m_val := ith (m_list L) d\<rparr>)
         else \<exists>msg. accept (Suc n) (Index tok lst idx) st =
                Some (Inl (RuntimeError tok msg), st2)"
    using accept_Index [OF assms(1-3), of tok]
          Index_apply_scalar_valid [OF assms(4), of d tok]
          Index_apply_scalar_invalid [OF assms(4), of d tok]
    by simp
next
  fix ip ds ty
  assume a: "m_val st2 = VList ip
          \<and> elem (lists st2) ip = Some \<lparr>m_list = map VNum ds, m_type = ty\<rparr>
          \<and> (ty = numList \<or> (ty = emptyList \<and> ds = []))"
  then show "if \<forall>d\<in>set ds. validIndex (length (m_list L)) d
         then accept (Suc n) (Index tok lst idx) st =
                Some (Inr (), st2\<lparr>lists := lists st2 @
                                    [\<lparr>m_list = map (ith (m_list L)) ds, m_type = m_type L\<rparr>],
                                  m_val := VList (length (lists st2))\<rparr>)
         else \<exists>msg. accept (Suc n) (Index tok lst idx) st =
                Some (Inl (RuntimeError tok msg), st2)"
    using accept_Index [OF assms(1-3), of tok]
          Index_apply_list_valid [OF assms(4), of ip ds ty tok]
          Index_apply_list_invalid [OF assms(4), of ip ds ty tok]
    by (simp split: if_splits)
next
  assume "\<not> isNum (m_val st2) \<and> \<not> isList (m_val st2)"
  then show "accept (Suc n) (Index tok lst idx) st =
            Some (Inl (RuntimeError tok ''The index must be a list or a number.''), st2)"
    using accept_Index [OF assms(1-3), of tok]
          Index_apply_not_index [OF assms(4), of "m_val st2" tok]
    by simp
next
  fix ip I
  assume "m_val st2 = VList ip \<and> elem (lists st2) ip = Some I
          \<and> m_type I \<noteq> numList \<and> m_type I \<noteq> emptyList"
  then show "accept (Suc n) (Index tok lst idx) st =
            Some (Inl (RuntimeError tok ''The indexing list must contain numbers.''), st2)"
    using accept_Index [OF assms(1-3), of tok]
          Index_apply_list_not_numbers [OF assms(4), of ip I tok]
    by simp
qed

text \<open>
  The theorem on \<open>[10, 20, 30][2]\<close>, on \<open>[10, 20, 30][[3, 1]]\<close> and on the out-of-range
  \<open>[10, 20, 30][4]\<close>.
\<close>

theorem index_read_witness:
  "accept (Suc 2) (Index brkt (ListExpr [num 10, num 20, num 30] brkt) (num 2)) Interpreter_init =
     Some (Inr (), Interpreter_init
        \<lparr>m_val := VNum (Finite 20),
         lists := [\<lparr>m_list = [VNum (Finite 10), VNum (Finite 20), VNum (Finite 30)], m_type = numList\<rparr>]\<rparr>)
   \<and> accept (Suc 2) (Index brkt (ListExpr [num 10, num 20, num 30] brkt)
                 (ListExpr [num 3, num 1] brkt)) Interpreter_init =
     Some (Inr (), Interpreter_init
        \<lparr>m_val := VList 2,
         lists := [\<lparr>m_list = [VNum (Finite 10), VNum (Finite 20), VNum (Finite 30)], m_type = numList\<rparr>,
                   \<lparr>m_list = [VNum (Finite 3), VNum (Finite 1)], m_type = numList\<rparr>,
                   \<lparr>m_list = [VNum (Finite 30), VNum (Finite 10)], m_type = numList\<rparr>]\<rparr>)
   \<and> (\<exists>msg. accept (Suc 2) (Index brkt (ListExpr [num 10, num 20, num 30] brkt) (num 4))
                Interpreter_init =
          Some (Inl (RuntimeError brkt msg), Interpreter_init
            \<lparr>m_val := VNum (Finite 4),
             lists := [\<lparr>m_list = [VNum (Finite 10), VNum (Finite 20), VNum (Finite 30)], m_type = numList\<rparr>]\<rparr>))"
proof -
  let ?L = "\<lparr>m_list = [VNum (Finite 10), VNum (Finite 20), VNum (Finite 30)], m_type = numList\<rparr>"
  let ?st1 = "Interpreter_init\<lparr>m_val := VList 0, lists := [?L]\<rparr>"
  have l: "accept 2 (ListExpr [num 10, num 20, num 30] brkt) Interpreter_init =
             Some (Inr (), ?st1)"
    by code_simp
  have v: "m_val ?st1 = VList 0" by simp
  have i2: "accept 2 (num 2) ?st1 = Some (Inr (), ?st1\<lparr>m_val := VNum (Finite 2)\<rparr>)"
    by code_simp
  have i4: "accept 2 (num 4) ?st1 = Some (Inr (), ?st1\<lparr>m_val := VNum (Finite 4)\<rparr>)"
    by code_simp
  have il: "accept 2 (ListExpr [num 3, num 1] brkt) ?st1 =
      Some (Inr (), ?st1\<lparr>m_val := VList 1,
                          lists := [?L, \<lparr>m_list = map VNum [Finite 3, Finite 1], m_type = numList\<rparr>]\<rparr>)"
    by code_simp
  have e2: "elem (lists (?st1\<lparr>m_val := VNum (Finite 2)\<rparr>)) 0 = Some ?L" by (simp add: elem_def)
  have e4: "elem (lists (?st1\<lparr>m_val := VNum (Finite 4)\<rparr>)) 0 = Some ?L" by (simp add: elem_def)
  have el: "elem (lists (?st1\<lparr>m_val := VList 1,
                          lists := [?L, \<lparr>m_list = map VNum [Finite 3, Finite 1], m_type = numList\<rparr>]\<rparr>)) 0
              = Some ?L" by (simp add: elem_def)
  have lr: "lround (Finite 2) = 2" "lround (Finite 4) = 4" "lround (Finite 3) = 3"
           "lround (Finite 1) = 1"
    by (simp_all add: lround_def)
  have va: "validIndex (length (m_list ?L)) (Finite 2)"
           "\<not> validIndex (length (m_list ?L)) (Finite 4)"
           "validIndex (length (m_list ?L)) (Finite 3)"
           "validIndex (length (m_list ?L)) (Finite 1)"
    by (simp_all add: validIndex_def lr epsilon_def of_long_def ld_sub_def ld_add_def
        ld_less_def real_of_def)
  have it: "ith (m_list ?L) (Finite 2) = VNum (Finite 20)"
           "ith (m_list ?L) (Finite 3) = VNum (Finite 30)"
           "ith (m_list ?L) (Finite 1) = VNum (Finite 10)"
    by (simp_all add: ith_def lr)
  have a: "accept (Suc 2) (Index brkt (ListExpr [num 10, num 20, num 30] brkt) (num 2))
             Interpreter_init = Some (Inr (), ?st1\<lparr>m_val := VNum (Finite 20)\<rparr>)"
    using index_read [OF l v i2 e2, of brkt] va it by (simp del: list_t.simps length_Cons)
  have b: "\<exists>msg. accept (Suc 2) (Index brkt (ListExpr [num 10, num 20, num 30] brkt) (num 4))
             Interpreter_init = Some (Inl (RuntimeError brkt msg), ?st1\<lparr>m_val := VNum (Finite 4)\<rparr>)"
    using index_read [OF l v i4 e4, of brkt] va by (simp del: list_t.simps length_Cons)
  let ?st2 = "?st1\<lparr>m_val := VList 1,
                      lists := [?L, \<lparr>m_list = map VNum [Finite 3, Finite 1], m_type = numList\<rparr>]\<rparr>"
  let ?I = "Index brkt (ListExpr [num 10, num 20, num 30] brkt) (ListExpr [num 3, num 1] brkt)"
  from index_read [OF l v il el, of brkt]
  have "\<forall>ip ds ty. m_val ?st2 = VList ip
          \<and> elem (lists ?st2) ip = Some \<lparr>m_list = map VNum ds, m_type = ty\<rparr>
          \<and> (ty = numList \<or> (ty = emptyList \<and> ds = [])) \<longrightarrow>
        (if \<forall>d\<in>set ds. validIndex (length (m_list ?L)) d
         then accept (Suc 2) ?I Interpreter_init =
                Some (Inr (), ?st2\<lparr>lists := lists ?st2 @
                                    [\<lparr>m_list = map (ith (m_list ?L)) ds, m_type = m_type ?L\<rparr>],
                                  m_val := VList (length (lists ?st2))\<rparr>)
         else \<exists>msg. accept (Suc 2) ?I Interpreter_init =
                Some (Inl (RuntimeError brkt msg), ?st2))"
    by blast
  then have "m_val ?st2 = VList 1
          \<and> elem (lists ?st2) 1 = Some \<lparr>m_list = map VNum [Finite 3, Finite 1], m_type = numList\<rparr>
          \<and> (numList = numList \<or> (numList = emptyList \<and> [Finite 3, Finite 1] = [])) \<longrightarrow>
        (if \<forall>d\<in>set [Finite 3, Finite 1]. validIndex (length (m_list ?L)) d
         then accept (Suc 2) ?I Interpreter_init =
                Some (Inr (), ?st2\<lparr>lists := lists ?st2 @
                                    [\<lparr>m_list = map (ith (m_list ?L)) [Finite 3, Finite 1], m_type = m_type ?L\<rparr>],
                                  m_val := VList (length (lists ?st2))\<rparr>)
         else \<exists>msg. accept (Suc 2) ?I Interpreter_init =
                Some (Inl (RuntimeError brkt msg), ?st2))"
    by blast
  then have c: "accept (Suc 2) ?I Interpreter_init =
     Some (Inr (), Interpreter_init
        \<lparr>m_val := VList 2,
         lists := [?L, \<lparr>m_list = [VNum (Finite 3), VNum (Finite 1)], m_type = numList\<rparr>,
                   \<lparr>m_list = [VNum (Finite 30), VNum (Finite 10)], m_type = numList\<rparr>]\<rparr>)"
    using va it by (simp add: elem_def)
  from a b c show ?thesis by auto
qed

section \<open>Index assignment\<close>

text \<open>The only valid index into a list of one element is one.\<close>

lemma validIndex_one: "validIndex 1 d \<Longrightarrow> lround d = 1"
  unfolding validIndex_def by linarith

text \<open>
  Claim C10: for an index assignment with a valid scalar index (necessarily 1) into a
  list of length exactly 1, the type check of the evaluator reads the list element at
  position 2, which is out of bounds; with element access as an option the read yields
  none, so the check is not well defined for one-element lists. Here the list, the index
  and the value have been evaluated without a throw; the list at address \<open>p\<close> has one
  element when the index is verified and when the value is stored. The read
  \<^verbatim>\<open>list->m_list[1]\<close> has no element to return and the visit ends outside the behaviour
  C++ defines.
\<close>

theorem index_assign_one_element_reads_past_end:
  assumes "accept n lst st = Some (Inr (), st1)" and "m_val st1 = VList p"
      and "accept n idx st1 = Some (Inr (), st2)" and "m_val st2 = VNum d"
      and "elem (lists st2) p = Some L" and "length (m_list L) = 1"
      and "validIndex 1 d"
      and "accept n v st2 = Some (Inr (), st3)"
      and "elem (lists st3) p = Some L'" and "length (m_list L') = 1"
  shows "lround d = 1 \<and> elem (m_list L') 1 = None
       \<and> accept (Suc n) (IndexAssign lst idx tok op v) st = Some (Inl UndefinedBehaviour, st3)"
  using assms
  by (simp add: validIndex_one bnd_def verifyIndices_def verifyIndex_valid ok_def throw_def
      IndexAssign_apply_def elem_def)

text \<open>The theorem on \<open>[5][1] `= 7\<close>.\<close>

theorem index_assign_one_element_reads_past_end_witness:
  "lround (Finite 1) = 1 \<and> elem (m_list \<lparr>m_list = [VNum (Finite 5)], m_type = numList\<rparr>) 1 = None
   \<and> accept (Suc 2) (IndexAssign (ListExpr [num 5] brkt) (num 1) brkt bt_equal (num 7))
         Interpreter_init =
       Some (Inl UndefinedBehaviour,
             Interpreter_init\<lparr>m_val := VList 0,
                               lists := [\<lparr>m_list = [VNum (Finite 5)], m_type = numList\<rparr>],
                               m_val := VNum (Finite 1), m_val := VNum (Finite 7)\<rparr>)"
proof -
  let ?L = "\<lparr>m_list = [VNum (Finite 5)], m_type = numList\<rparr>"
  let ?st1 = "Interpreter_init\<lparr>m_val := VList 0, lists := [?L]\<rparr>"
  have l: "accept 2 (ListExpr [num 5] brkt) Interpreter_init = Some (Inr (), ?st1)"
    by code_simp
  have v: "m_val ?st1 = VList 0" by simp
  have i: "accept 2 (num 1) ?st1 = Some (Inr (), ?st1\<lparr>m_val := VNum (Finite 1)\<rparr>)"
    by code_simp
  have vi: "m_val (?st1\<lparr>m_val := VNum (Finite 1)\<rparr>) = VNum (Finite 1)" by simp
  have e: "elem (lists (?st1\<lparr>m_val := VNum (Finite 1)\<rparr>)) 0 = Some ?L" by (simp add: elem_def)
  have len: "length (m_list ?L) = 1" by simp
  have va: "validIndex 1 (Finite 1)"
    by (simp add: validIndex_def lround_def epsilon_def of_long_def ld_sub_def ld_add_def
        ld_less_def real_of_def)
  have w: "accept 2 (num 7) (?st1\<lparr>m_val := VNum (Finite 1)\<rparr>) =
             Some (Inr (), ?st1\<lparr>m_val := VNum (Finite 1), m_val := VNum (Finite 7)\<rparr>)"
    by code_simp
  have e': "elem (lists (?st1\<lparr>m_val := VNum (Finite 1), m_val := VNum (Finite 7)\<rparr>)) 0 = Some ?L"
    by (simp add: elem_def)
  show ?thesis
    by (rule index_assign_one_element_reads_past_end [OF l v i vi e len va w e' len])
qed

text \<open>
  Claim C3: an index assignment with a valid scalar index into a list \<open>L\<close> succeeds if
  and only if the variant of the new value equals the type tag of \<open>L\<close>; on a mismatch a
  runtime error is raised and \<open>L\<close> is unchanged.

  The code compares the variant of the new value with that of the second element of \<open>L\<close>,
  not with the tag. On \<open>[5][1] `= 7\<close>, a number stored into a list of numbers, there is no
  second element: the read is past the end and the assignment does not succeed. In
  \<^verbatim>\<open>x = ["a", "b"]; x[[2]] `= [5]; x[1] `= "z";\<close> the list is tagged as a list of
  strings and holds a number second, so storing the string \<open>"z"\<close> is rejected as a type
  mismatch.
\<close>

theorem index_assign_compares_second_element:
  "accept 3 (IndexAssign (ListExpr [num 5] brkt) (num 1) brkt bt_equal (num 7)) Interpreter_init =
     Some (Inl UndefinedBehaviour,
           Interpreter_init\<lparr>m_val := VNum (Finite 7),
                             lists := [\<lparr>m_list = [VNum (Finite 5)], m_type = numList\<rparr>]\<rparr>)
   \<and> map_option (\<lambda>r. (fst r, lists (snd r) ! 0, reported (snd r)))
        (Interpreter_interpret 5 tagged_list_program Interpreter_init) =
     Some (Inr (), \<lparr>m_list = [VStr ''a'', VNum (Finite 5)], m_type = listOf StrK\<rparr>,
           [(brkt, ''Type mismatch for list assignment.'')])"
  by code_simp

text \<open>
  Claim C4: an index assignment with a list of valid indices into a list \<open>L\<close> succeeds if
  and only if the right-hand side is a list whose type tag matches that of \<open>L\<close> and whose
  length equals that of the index list.

  The code compares the tag of the right-hand side with the tag of the index list, which
  is a list of numbers. So \<open>["a", "b", "c"][[2, 3]] `= ["p", "q"]\<close>, strings into a list of
  strings, is rejected as a type mismatch, and \<open>["a", "b"][[1]] `= [5]\<close>, a number into a
  list of strings, succeeds and leaves a list tagged as strings that holds a number.
\<close>

theorem index_list_assign_compares_index_list_tag:
  "accept 3 (IndexAssign (ListExpr [strlit ''a'', strlit ''b'', strlit ''c''] brkt)
               (ListExpr [num 2, num 3] brkt) brkt bt_equal
               (ListExpr [strlit ''p'', strlit ''q''] brkt)) Interpreter_init =
     Some (Inl (RuntimeError bt_equal ''Type mismatch for list assignment.''),
           Interpreter_init\<lparr>m_val := VList 2,
             lists := [\<lparr>m_list = [VStr ''a'', VStr ''b'', VStr ''c''], m_type = listOf StrK\<rparr>,
                       \<lparr>m_list = [VNum (Finite 2), VNum (Finite 3)], m_type = numList\<rparr>,
                       \<lparr>m_list = [VStr ''p'', VStr ''q''], m_type = listOf StrK\<rparr>]\<rparr>)
   \<and> accept 3 (IndexAssign (ListExpr [strlit ''a'', strlit ''b''] brkt)
               (ListExpr [num 1] brkt) brkt bt_equal
               (ListExpr [num 5] brkt)) Interpreter_init =
     Some (Inr (),
           Interpreter_init\<lparr>m_val := VList 2,
             lists := [\<lparr>m_list = [VNum (Finite 5), VStr ''b''], m_type = listOf StrK\<rparr>,
                       \<lparr>m_list = [VNum (Finite 1)], m_type = numList\<rparr>,
                       \<lparr>m_list = [VNum (Finite 5)], m_type = numList\<rparr>]\<rparr>)"
  by code_simp

section \<open>Range expressions\<close>

text \<open>
  Sums of small integers are exact: \<open>1..2..9\<close> is \<open>[1, 3, 5, 7, 9]\<close>, as the
  specification's example has it.
\<close>

lemma ld_add_int:
  assumes "\<bar>m + k\<bar> < 2 ^ 64"
  shows "ld_add (Finite (of_int m)) (Finite (of_int k)) = Finite (of_int (m + k))"
proof (cases "m + k = 0")
  case True
  then have "real_of_int m + real_of_int k = 0" by (metis of_int_0 of_int_add)
  with True show ?thesis by (simp add: ld_add_def real_of_def)
next
  case False
  then have "real_of_int m + real_of_int k \<noteq> 0" by (metis of_int_0_eq_iff of_int_add)
  moreover have "rnd (of_int (m + k)) = Finite (of_int (m + k))"
    using representable_int [OF assms] False by (intro rnd_exact) simp_all
  ultimately show ?thesis by (simp add: ld_add_def real_of_def)
qed

lemma isEqual_ld_zero:
  assumes "representable s"
  shows "isEqual_ld (Finite s) (Finite 0) = (\<bar>s\<bar> < epsilon)"
proof (cases "s = 0")
  case True
  then show ?thesis
    by (simp add: isEqual_ld_def ld_sub_def ld_add_def real_of_def ld_less_def epsilon_def)
next
  case False
  with rnd_exact [OF assms] show ?thesis
    by (simp add: isEqual_ld_def ld_sub_def ld_add_def real_of_def ld_less_def)
qed

lemma range_one_to_nine:
  "accept 7 (RangeExpr (num 1) (Some (num 2)) (num 9) dot_dot) Interpreter_init =
     Some (Inr (), Interpreter_init
       \<lparr>m_val := VList 0,
        lists := [\<lparr>m_list = map (VNum \<circ> Finite) [1, 3, 5, 7, 9], m_type = numList\<rparr>]\<rparr>)"
proof -
  have s: "ld_add (Finite 1) (Finite 2) = Finite 3" "ld_add (Finite 3) (Finite 2) = Finite 5"
          "ld_add (Finite 5) (Finite 2) = Finite 7" "ld_add (Finite 7) (Finite 2) = Finite 9"
          "ld_add (Finite 9) (Finite 2) = Finite 11"
    using ld_add_int [of 1 2] ld_add_int [of 3 2] ld_add_int [of 5 2] ld_add_int [of 7 2]
          ld_add_int [of 9 2]
    by simp_all
  have "representable (of_int 2)" by (rule representable_int) simp
  then have z: "\<not> isEqual_ld (Finite 2) (Finite 0)"
    using isEqual_ld_zero [of 2] by (simp add: epsilon_def)
  have "rangeLoop 6 (Finite 1) (Finite 2) (Finite 9) [] =
          Some (map (VNum \<circ> Finite) [1, 3, 5, 7, 9])"
    by (simp add: eval_nat_numeral s ld_le_def real_of_def)
  with z show ?thesis
    by (simp add: eval_nat_numeral num_def bnd_def ok_def newList_def Interpreter_init_def)
qed

text \<open>
  The loop with a negative step, an end that is a number of the format and a start at
  most the end: every value the loop reaches is at most the end, be it a finite number,
  negative zero or negative infinity, so no amount of fuel lets it return.
\<close>

lemma rnd_below:
  assumes "x \<le> b" and "representable b"
  shows "below b (rnd x)"
proof -
  from assms(2) have b: "round_finite b = b" "b < pow2 16384"
    by (auto simp add: representable_def)
  from round_finite_mono [OF assms(1)] b have le: "round_finite x \<le> b" by simp
  show ?thesis
  proof (cases "pow2 16384 \<le> \<bar>round_finite x\<bar>")
    case True
    with le b have "round_finite x < 0" using pow2_pos [of 16384] by linarith
    with round_finite_nonneg [of x] have "\<not> 0 < x" by linarith
    with True show ?thesis by (simp add: rnd_def below_def Let_def)
  next
    case False
    with le show ?thesis by (auto simp: rnd_def below_def Let_def)
  qed
qed

lemma below_le: "below b i \<Longrightarrow> ld_le i (Finite b)"
  by (cases i) (simp_all add: below_def ld_le_def real_of_def)

lemma below_add:
  assumes "below b i" and "s < 0" and "representable b"
  shows "below b (ld_add i (Finite s))"
proof (cases i)
  case (Finite x)
  with assms(1) have x: "x \<le> b" by (simp add: below_def)
  show ?thesis
  proof (cases "x + s = 0")
    case True
    with x assms(2) Finite show ?thesis by (simp add: ld_add_def real_of_def below_def)
  next
    case False
    from x assms(2) have "x + s \<le> b" by simp
    from rnd_below [OF this assms(3)] False Finite show ?thesis
      by (simp add: ld_add_def real_of_def)
  qed
next
  case NZero
  with assms(1) have "0 \<le> b" by (simp add: below_def)
  with assms(2) have "s \<le> b" by simp
  from rnd_below [OF this assms(3)] assms(2) NZero show ?thesis
    by (simp add: ld_add_def real_of_def)
next
  case NInf
  then show ?thesis by (simp add: ld_add_def below_def)
next
  case PInf
  with assms(1) show ?thesis by (simp add: below_def)
next
  case NaN
  with assms(1) show ?thesis by (simp add: below_def)
qed

lemma rangeLoop_negative_step:
  "s < 0 \<Longrightarrow> representable b \<Longrightarrow> below b i \<Longrightarrow>
     rangeLoop n i (Finite s) (Finite b) acc = None"
  by (induction n arbitrary: i acc) (simp_all add: below_le below_add)

text \<open>
  A range over three number literals with a negative step and \<open>a \<le> b\<close> never returns.
\<close>

lemma accept_range_negative_step:
  assumes "s < 0" and "\<not> isEqual_ld (Finite s) (Finite 0)" and "a \<le> b" and "representable b"
  shows "accept n (RangeExpr (num a) (Some (num s)) (num b) tok) st = None"
proof (cases n)
  case 0
  then show ?thesis by simp
next
  case (Suc m)
  show ?thesis
  proof (cases m)
    case 0
    with Suc show ?thesis by (simp add: bnd_def num_def)
  next
    case (Suc k)
    from assms(3) have "below b (Finite a)" by (simp add: below_def)
    from rangeLoop_negative_step [OF assms(1,4) this, of "Suc k" "[]"]
         \<open>n = Suc m\<close> Suc assms(2)
    show ?thesis by (simp add: bnd_def ok_def num_def)
  qed
qed

lemma step_minus_one: "\<not> isEqual_ld (Finite (- 1)) (Finite 0)"
proof -
  have "representable (of_int (- 1))" by (rule representable_int) simp
  then show ?thesis using isEqual_ld_zero [of "- 1"] by (simp add: epsilon_def)
qed

text \<open>
  A step that the start absorbs: \<open>10 ^ 20 + 1\<close> lies between \<open>2 ^ 66\<close> and \<open>2 ^ 67\<close>,
  where the numbers of the format are the multiples of 8, and rounds to \<open>10 ^ 20\<close>. A loop
  whose value does not change and is at most the end never returns.
\<close>

lemma absorbed_step: "ld_add (Finite (10 ^ 20)) (Finite 1) = Finite (10 ^ 20)"
proof -
  let ?x = "10 ^ 20 + 1 :: real"
  have p: "pow2 66 = 73786976294838206464" "pow2 67 = 147573952589676412928" "pow2 3 = 8"
    using pow2_nat [of 66] pow2_nat [of 67] pow2_nat [of 3] by simp_all
  have "expo ?x = 66" by (rule expo_eq) (simp_all add: p)
  then have u: "ulp ?x = 8" by (simp add: ulp_def p)
  have "nearest_even (?x / 8) = 12500000000000000000"
    by (simp add: nearest_even_def Let_def)
  with u have r: "round_finite ?x = 10 ^ 20" by (simp add: round_finite_def)
  have "(10 ^ 20 :: real) < pow2 67" by (simp add: p)
  also have "pow2 67 \<le> pow2 16384" by (rule pow2_mono) simp
  finally have "\<bar>10 ^ 20 :: real\<bar> < pow2 16384" by simp
  with r have "rnd ?x = Finite (10 ^ 20)" by (simp add: rnd_def Let_def)
  then show ?thesis by (simp add: ld_add_def real_of_def)
qed

lemma rangeLoop_absorbed:
  "ld_le i e \<Longrightarrow> ld_add i step = i \<Longrightarrow> rangeLoop n i step e acc = None"
  by (induction n arbitrary: acc) simp_all

lemma accept_range_absorbed:
  "accept n (RangeExpr (num (10 ^ 20)) None (num (10 ^ 20)) tok) st = None"
proof (cases n)
  case 0
  then show ?thesis by simp
next
  case (Suc m)
  show ?thesis
  proof (cases m)
    case 0
    with Suc show ?thesis by (simp add: bnd_def num_def)
  next
    case (Suc k)
    have "ld_le (Finite (10 ^ 20)) (Finite (10 ^ 20))" by (simp add: ld_le_def)
    from rangeLoop_absorbed [OF this absorbed_step, of "Suc k" "[]"] \<open>n = Suc m\<close> Suc
    show ?thesis by (simp add: bnd_def ok_def num_def)
  qed
qed

text \<open>
  Claim C5: for \<open>a..b\<close> and \<open>a..s..b\<close> with numbers \<open>a\<close>, \<open>s\<close>, \<open>b\<close> and \<open>s\<close> not
  epsilon-equal to 0, the result is the numeric list \<open>[a, a+s, a+2s, \<dots>]\<close> of the
  successive values that are at most \<open>b\<close>, the step being 1 when omitted.

  The loop tests \<^verbatim>\<open>i <= end\<close> whatever the sign of the step, and adds the step in
  \<^verbatim>\<open>long double\<close> arithmetic. On \<open>1..-1..5\<close> every successive value is at most 5; on
  \<open>1e20..1e20\<close>, whose list is \<open>[1e20]\<close>, adding the step 1 to \<open>1e20\<close> gives \<open>1e20\<close> again.
  Neither evaluation has a result, whatever the fuel and the state.
\<close>

theorem range_without_result:
  "accept n (RangeExpr (num 1) (Some (num (- 1))) (num 5) dot_dot) st = None
   \<and> accept n (RangeExpr (num (10 ^ 20)) None (num (10 ^ 20)) dot_dot) st = None"
proof
  have "representable (of_int 5)" by (rule representable_int) simp
  then have "representable 5" by simp
  with step_minus_one
  show "accept n (RangeExpr (num 1) (Some (num (- 1))) (num 5) dot_dot) st = None"
    by (intro accept_range_negative_step) simp_all
  show "accept n (RangeExpr (num (10 ^ 20)) None (num (10 ^ 20)) dot_dot) st = None"
    by (rule accept_range_absorbed)
qed

text \<open>
  Claim C6: for all numbers \<open>a\<close>, \<open>s\<close>, \<open>b\<close> with \<open>s\<close> not epsilon-equal to 0, the evaluation
  of \<open>a..s..b\<close> terminates; in particular when \<open>s\<close> is negative and \<open>a \<le> b\<close>.

  The loop adds the step and tests \<^verbatim>\<open>i <= end\<close> whatever the sign of the step. With a
  negative step and \<open>a \<le> b\<close> the test never fails: the evaluation returns for no fuel. The
  end \<open>b\<close> is the value of a \<^verbatim>\<open>long double\<close>, as the value of every literal is; the sums
  are rounded, and may reach negative zero and negative infinity, which are below \<open>b\<close>
  too.
\<close>

theorem range_negative_step_never_returns:
  assumes "s < 0" and "\<not> isEqual_ld (Finite s) (Finite 0)" and "a \<le> b" and "representable b"
  shows "accept n (RangeExpr (num a) (Some (num s)) (num b) tok) st = None"
  using assms by (rule accept_range_negative_step)

text \<open>The theorem on \<open>0..-0.5..0\<close> with fuel 1000.\<close>

theorem range_negative_step_never_returns_witness:
  "accept 1000 (RangeExpr (num 0) (Some (num (- (1 / 2)))) (num 0) dot_dot) Interpreter_init = None"
proof -
  have "representable (of_int (- 1) * pow2 (- 1))" by (rule representable_scaled) simp_all
  moreover have "pow2 (- 1) = 1 / 2" using pow2_minus [of 1] pow2_nat [of 1] by simp
  ultimately have "representable (- (1 / 2))" by simp
  then have "\<not> isEqual_ld (Finite (- (1 / 2))) (Finite 0)"
    using isEqual_ld_zero [of "- (1 / 2)"] by (simp add: epsilon_def)
  then show ?thesis
    using representable_zero by (intro range_negative_step_never_returns) simp_all
qed

section \<open>Compound assignment\<close>

text \<open>
  The parser helpers at a position that holds a token: \<^verbatim>\<open>isNextType\<close>, \<^verbatim>\<open>advance\<close>,
  \<^verbatim>\<open>match\<close> and \<^verbatim>\<open>previous\<close>.
\<close>

lemma isNextType_at:
  assumes "elem (m_tokens p) (m_current p) = Some t"
  shows "isNextType type p = Some (Inr (getType t \<noteq> EOF \<and> getType t = type), p)"
  using assms by (auto simp: isNextType_def isAtEnd_def peek_def pbnd_def preturn_def)

lemma advance_at:
  assumes "elem (m_tokens p) (m_current p) = Some t" and "getType t \<noteq> EOF"
  shows "advance p = Some (Inr t, p\<lparr>m_current := Suc (m_current p)\<rparr>)"
  using assms
  by (auto simp: advance_def isAtEnd_def peek_def previous_def pbnd_def preturn_def elem_def
           split: if_splits)

lemma match_none:
  assumes "elem (m_tokens p) (m_current p) = Some t" and "getType t \<notin> set types"
  shows "match types p = Some (Inr False, p)"
  using assms
  by (induction types) (auto simp: isNextType_at pbnd_def preturn_def)

lemma match_some:
  assumes "elem (m_tokens p) (m_current p) = Some t" and "getType t \<in> set types"
      and "getType t \<noteq> EOF"
  shows "match types p = Some (Inr True, p\<lparr>m_current := Suc (m_current p)\<rparr>)"
  using assms
  by (induction types) (auto simp: isNextType_at advance_at pbnd_def preturn_def)

lemma previous_after_advance:
  assumes "elem (m_tokens p) (m_current p) = Some t"
  shows "previous (p\<lparr>m_current := Suc (m_current p)\<rparr>) =
           Some (Inr t, p\<lparr>m_current := Suc (m_current p)\<rparr>)"
  using assms by (auto simp: previous_def preturn_def elem_def split: if_splits)

lemma compoundAssignment_Variable:
  assumes "elem (m_tokens p) (m_current p) = Some op"
      and "getType op \<in> {PLUS_EQUAL, MINUS_EQUAL, PROD_EQUAL, DIV_EQUAL}"
      and "assignment_rec (p\<lparr>m_current := m_current p + 1\<rparr>) = Some (Inr e, p2)"
  shows "compoundAssignment assignment_rec (Variable a name) p =
           Some (Inr (Some (strictAssignTree (free_addr p2) a name op e)),
                 p2\<lparr>free_addr := free_addr p2 + 1\<rparr>)"
proof -
  from assms(2) have ne: "getType op \<noteq> EOF" by auto
  from assms(2) have m: "getType op \<in> set [PROD_EQUAL, DIV_EQUAL, PLUS_EQUAL, MINUS_EQUAL]"
    by auto
  show ?thesis
    using assms(2,3)
    by (auto simp add: compoundAssignment_def match_some [OF assms(1) m ne]
          previous_after_advance [OF assms(1)] pbnd_def preturn_def
          compoundOperator_def strictAssignTree_def compoundBinary_def Let_def
          simp del: match.simps)
qed

lemma plainAssignment_other:
  assumes "elem (m_tokens p) (m_current p) = Some op"
      and "getType op \<in> {PLUS_EQUAL, MINUS_EQUAL, PROD_EQUAL, DIV_EQUAL}"
  shows "plainAssignment assignment_rec expr p = Some (Inr None, p)"
proof -
  from assms(2) have "getType op \<notin> set [EQUAL, BT_EQUAL]" by auto
  from match_none [OF assms(1) this] show ?thesis
    by (simp add: plainAssignment_def pbnd_def preturn_def del: match.simps)
qed

text \<open>
  Claim C9: for every compound assignment \<open>a += e\<close> (likewise \<open>-=\<close>, \<open>*=\<close>, \<open>/=\<close>) whose
  target is a plain identifier, the parser produces exactly the tree of the strict
  assignment \<open>a `= (a + e)\<close> (respectively \<open>-\<close>, \<open>*\<close>, \<open>/\<close>), so that every later phase sees
  the desugared form. Here \<^verbatim>\<open>lor()\<close> has returned the variable node, the next token \<open>op\<close>
  is one of the four compound operators, and the recursive call of \<^verbatim>\<open>assignment\<close> after
  that token has returned \<open>e\<close>. The result is the tree \<open>strictAssignTree\<close>, which later
  phases are handed in place of the compound form; the parentheses of the written form
  \<open>a `= (a + e)\<close> stand for the grouping, and evaluating the tree that keeps them as a node
  gives the same outcome, with one unit of fuel for that node.
\<close>

theorem compound_assignment_desugars:
  assumes "lor p = Some (Inr (Variable a name), p1)"
      and "elem (m_tokens p1) (m_current p1) = Some op"
      and "getType op \<in> {PLUS_EQUAL, MINUS_EQUAL, PROD_EQUAL, DIV_EQUAL}"
      and "assignment n lor (p1\<lparr>m_current := m_current p1 + 1\<rparr>) = Some (Inr e, p2)"
  shows "assignment (Suc n) lor p =
           Some (Inr (strictAssignTree (free_addr p2) a name op e),
                 p2\<lparr>free_addr := free_addr p2 + 1\<rparr>)
       \<and> (\<forall>k st. accept (Suc (Suc k)) (strictAssignWritten (free_addr p2) a name op e) st =
                   accept (Suc k) (strictAssignTree (free_addr p2) a name op e) st)"
proof
  show "assignment (Suc n) lor p =
           Some (Inr (strictAssignTree (free_addr p2) a name op e),
                 p2\<lparr>free_addr := free_addr p2 + 1\<rparr>)"
    using assms(1) plainAssignment_other [OF assms(2,3)]
          compoundAssignment_Variable [where assignment_rec = "assignment n lor", OF assms(2,3,4)]
    by (simp add: pbnd_def preturn_def)
  show "\<forall>k st. accept (Suc (Suc k)) (strictAssignWritten (free_addr p2) a name op e) st =
                 accept (Suc k) (strictAssignTree (free_addr p2) a name op e) st"
    by (simp add: strictAssignWritten_def strictAssignTree_def)
qed

text \<open>The theorem on the tokens of \<^verbatim>\<open>a += b;\<close>, identifiers being read as \<^verbatim>\<open>primary\<close> does.\<close>

theorem compound_assignment_desugars_witness:
  "assignment (Suc 1) primary_identifier (Parser_init compound_tokens) =
     Some (Inr (strictAssignTree 2 0 a_tok plus_equal (Variable 1 b_tok)),
           (Parser_init compound_tokens)\<lparr>m_current := 3, free_addr := 3\<rparr>)"
proof -
  let ?p = "Parser_init compound_tokens"
  let ?p1 = "?p\<lparr>m_current := 1, free_addr := 1\<rparr>"
  let ?p2 = "?p\<lparr>m_current := 3, free_addr := 2\<rparr>"
  have l: "primary_identifier ?p = Some (Inr (Variable 0 a_tok), ?p1)"
    by code_simp
  have t: "elem (m_tokens ?p1) (m_current ?p1) = Some plus_equal"
    by code_simp
  have k: "getType plus_equal \<in> {PLUS_EQUAL, MINUS_EQUAL, PROD_EQUAL, DIV_EQUAL}"
    by (simp add: plus_equal_def)
  have r: "assignment 1 primary_identifier (?p1\<lparr>m_current := m_current ?p1 + 1\<rparr>) =
             Some (Inr (Variable 1 b_tok), ?p2)"
    by code_simp
  from compound_assignment_desugars [OF l t k r]
  have "assignment (Suc 1) primary_identifier ?p =
          Some (Inr (strictAssignTree (free_addr ?p2) 0 a_tok plus_equal (Variable 1 b_tok)),
                ?p2\<lparr>free_addr := free_addr ?p2 + 1\<rparr>)"
    by (rule conjunct1)
  then show ?thesis by (simp add: Parser_init_def)
qed

end
